theory Spec2Isabelle
  imports Main "HOL-Library.Sublist"
begin

section \<open>JavaScript values and strings\<close>

text \<open>
  The option bags, configuration objects and parsed JSON documents of the program are
  JavaScript values. Numbers are restricted to the integers (no fractions, no NaN);
  an object is an association list in which the first binding of a key is the property.
\<close>

datatype jsval =
    Undefined
  | Null
  | Bool bool
  | Num int
  | Str string
  | Arr "jsval list"
  | Obj "(string \<times> jsval) list"

type_synonym jsobj = "(string \<times> jsval) list"

text \<open>Property access \<open>o.k\<close>: a property that is absent reads as \<open>undefined\<close>.\<close>

definition get_prop :: "jsobj \<Rightarrow> string \<Rightarrow> jsval" where
  "get_prop obj k = (case map_of obj k of None \<Rightarrow> Undefined | Some v \<Rightarrow> v)"

text \<open>The truthiness test behind \<open>!x\<close>, \<open>x ? a : b\<close>, \<open>x || y\<close> and \<open>filter(Boolean)\<close>.\<close>

fun truthy :: "jsval \<Rightarrow> bool" where
  "truthy Undefined = False"
| "truthy Null = False"
| "truthy (Bool b) = b"
| "truthy (Num n) = (n \<noteq> 0)"
| "truthy (Str s) = (s \<noteq> [])"
| "truthy (Arr xs) = True"
| "truthy (Obj kvs) = True"

text \<open>Decimal rendering of a number, as \<open>String(n)\<close> and template literals do.\<close>

definition digit_char :: "nat \<Rightarrow> char" where
  "digit_char d = ''0123456789'' ! d"

fun string_of_nat :: "nat \<Rightarrow> string" where
  "string_of_nat n =
     (if n < 10 then [digit_char n] else string_of_nat (n div 10) @ [digit_char (n mod 10)])"

declare string_of_nat.simps [simp del]

definition string_of_int :: "int \<Rightarrow> string" where
  "string_of_int i =
     (if i < 0 then CHR ''-'' # string_of_nat (nat (- i)) else string_of_nat (nat i))"

text \<open>\<open>Array.prototype.join\<close> on strings.\<close>

fun join :: "string \<Rightarrow> string list \<Rightarrow> string" where
  "join sep [] = []"
| "join sep [s] = s"
| "join sep (s # t # ss) = s @ sep @ join sep (t # ss)"

text \<open>
  String conversion of a value inside a template literal. An array joins the
  conversions of its elements with commas, \<open>null\<close> and \<open>undefined\<close> elements
  giving the empty string.
\<close>

fun to_string :: "jsval \<Rightarrow> string" where
  "to_string Undefined = ''undefined''"
| "to_string Null = ''null''"
| "to_string (Bool b) = (if b then ''true'' else ''false'')"
| "to_string (Num n) = string_of_int n"
| "to_string (Str s) = s"
| "to_string (Arr xs) =
     join '','' (map (\<lambda>x. if x = Undefined \<or> x = Null then [] else to_string x) xs)"
| "to_string (Obj kvs) = ''[object Object]''"

text \<open>\<open>s.padStart(n, c)\<close> for a one-character pad.\<close>

definition padStart :: "nat \<Rightarrow> char \<Rightarrow> string \<Rightarrow> string" where
  "padStart n c s = replicate (n - length s) c @ s"

text \<open>\<open>s.startsWith(p)\<close>, \<open>s.endsWith(p)\<close> and \<open>s.includes(p)\<close>.\<close>

definition startsWith :: "string \<Rightarrow> string \<Rightarrow> bool" where
  "startsWith s p = (take (length p) s = p)"

definition endsWith :: "string \<Rightarrow> string \<Rightarrow> bool" where
  "endsWith s p = (length p \<le> length s \<and> drop (length s - length p) s = p)"

definition str_includes :: "string \<Rightarrow> string \<Rightarrow> bool" where
  "str_includes s p = list_ex (\<lambda>i. startsWith (drop i s) p) [0..<Suc (length s)]"

section \<open>Errors\<close>

text \<open>
  A thrown \<open>Error\<close>: its \<open>message\<close> and, for errors of the file system, its \<open>code\<close>
  (\<open>ENOENT\<close>, \<open>EACCES\<close>, ...). \<open>new Error(msg)\<close> has no code.
\<close>

datatype js_error = JsError (code: "string option") (message: string)

definition Error :: "string \<Rightarrow> js_error" where
  "Error msg = JsError None msg"

definition TypeError :: "string \<Rightarrow> js_error" where
  "TypeError msg = JsError None msg"

section \<open>utils.js: timestamps and file names\<close>

text \<open>
  The reading of \<open>new Date()\<close> in local time, by the getters the code calls:
  \<open>getFullYear\<close>, \<open>getMonth\<close> (0 to 11), \<open>getDate\<close>, \<open>getHours\<close>, \<open>getMinutes\<close>
  and \<open>getSeconds\<close>.
\<close>

record date =
  getFullYear :: int
  getMonth :: nat
  getDate :: nat
  getHours :: nat
  getMinutes :: nat
  getSeconds :: nat

definition generateTimestamp :: "date \<Rightarrow> string" where
  "generateTimestamp now =
     (let year = getFullYear now;
          month = padStart 2 CHR ''0'' (string_of_nat (getMonth now + 1));
          day = padStart 2 CHR ''0'' (string_of_nat (getDate now));
          hours = padStart 2 CHR ''0'' (string_of_nat (getHours now));
          minutes = padStart 2 CHR ''0'' (string_of_nat (getMinutes now));
          seconds = padStart 2 CHR ''0'' (string_of_nat (getSeconds now))
      in string_of_int year @ month @ day @ ''-'' @ hours @ minutes @ seconds)"

definition generateBackupFilename :: "date \<Rightarrow> string \<Rightarrow> string \<Rightarrow> string" where
  "generateBackupFilename now dbName extension =
     ''supabase-backup-'' @ generateTimestamp now @ ''-'' @ dbName @ ''.'' @ extension"

text \<open>
  A clock reading of the calendar: a year of four digits and the ranges the getters of
  \<open>Date\<close> have.
\<close>

definition calendar_date :: "date \<Rightarrow> bool" where
  "calendar_date now \<longleftrightarrow>
     1000 \<le> getFullYear now \<and> getFullYear now \<le> 9999 \<and>
     getMonth now < 12 \<and> 1 \<le> getDate now \<and> getDate now \<le> 31 \<and>
     getHours now < 24 \<and> getMinutes now < 60 \<and> getSeconds now < 60"

text \<open>
  The pattern \<open>*-backup-\d{8}-\d{6}-<db>.<ext>\<close>: some suffix of the name is
  \<open>-backup-\<close>, eight digits, a dash, six digits, a dash, the database name, a dot and
  the extension.
\<close>

definition is_digit :: "char \<Rightarrow> bool" where
  "is_digit c \<longleftrightarrow> c \<in> set ''0123456789''"

definition digits :: "nat \<Rightarrow> string \<Rightarrow> bool" where
  "digits n s \<longleftrightarrow> length s = n \<and> list_all is_digit s"

definition backup_tail :: "string \<Rightarrow> string \<Rightarrow> string \<Rightarrow> bool" where
  "backup_tail db ext r \<longleftrightarrow>
     take 8 r = ''-backup-'' \<and> digits 8 (take 8 (drop 8 r)) \<and>
     take 1 (drop 16 r) = ''-'' \<and> digits 6 (take 6 (drop 17 r)) \<and>
     drop 23 r = ''-'' @ db @ ''.'' @ ext"

definition matches_backup_pattern :: "string \<Rightarrow> string \<Rightarrow> string \<Rightarrow> bool" where
  "matches_backup_pattern db ext s =
     list_ex (\<lambda>i. backup_tail db ext (drop i s)) [0..<Suc (length s)]"

definition sample_now :: date where
  "sample_now = \<lparr>getFullYear = 2024, getMonth = 0, getDate = 5,
                  getHours = 9, getMinutes = 3, getSeconds = 7\<rparr>"

section \<open>The process and its environment\<close>

text \<open>
  A path is the string the code passes around. \<open>path.join(dir, name)\<close> is modelled
  for a directory and a file name that need no normalisation.
\<close>

type_synonym path = string

definition path_join :: "path \<Rightarrow> string \<Rightarrow> path" where
  "path_join dir name = dir @ ''/'' @ name"

definition basename :: "path \<Rightarrow> string" where
  "basename p = rev (takeWhile (\<lambda>c. c \<noteq> CHR ''/'') (rev p))"

text \<open>\<open>within d p\<close>: \<open>p\<close> is the directory \<open>d\<close> or lies below it.\<close>

definition within :: "path \<Rightarrow> path \<Rightarrow> bool" where
  "within d p \<longleftrightarrow> p = d \<or> startsWith p (d @ ''/'')"

text \<open>\<open>child_name d p\<close>: the name of \<open>p\<close> when it is an entry of directory \<open>d\<close>.\<close>

definition child_name :: "path \<Rightarrow> path \<Rightarrow> string option" where
  "child_name d p =
     (let name = drop (length d + 1) p
      in if startsWith p (d @ ''/'') \<and> name \<noteq> [] \<and> CHR ''/'' \<notin> set name
         then Some name else None)"

text \<open>The directories above a path, for \<open>mkdir\<close> with \<open>recursive: true\<close>.\<close>

definition parents :: "path \<Rightarrow> path list" where
  "parents p = map (\<lambda>i. take i p) (filter (\<lambda>i. 0 < i \<and> p ! i = CHR ''/'') [0..<length p])"

datatype kind = File | Dir

type_synonym disk = "(path \<times> kind) list"

datatype stream = Stdout | Stderr

text \<open>One call of \<open>child_process.exec\<close>: the command line and the options that matter.\<close>

record exec_call =
  command :: string
  maxBuffer :: "int option"
  extra_env :: "(string \<times> string) list"
  shell :: "string option"

text \<open>
  The state of the process: the entries of the file system (in the order a directory
  listing gives them), the number of interactions with the environment so far, the
  commands handed to the shell, the lines written to the console and the variables of
  \<open>process.env\<close>.
\<close>

record world =
  nodes :: disk
  time :: nat
  execd :: "exec_call list"
  console :: "(stream \<times> string) list"
  environ :: "(string \<times> string) list"

datatype fsop =
    Access path
  | Mkdir path
  | Unlink path
  | Rm path
  | Readdir path
  | Stat path

record mail =
  mail_from :: "string option"
  mail_to :: string
  mail_subject :: string
  mail_text :: string
  mail_attachment :: path

text \<open>
  The transporter that \<open>createTransporter\<close> configures from \<open>process.env\<close>; the port
  is kept as the text that the code hands to \<open>parseInt\<close>.
\<close>

record transporter =
  transport_host :: string
  transport_port :: string
  transport_secure :: bool
  transport_user :: string
  transport_pass :: string

text \<open>
  The object \<open>mergeConfig\<close> returns: \<open>email\<close>, \<open>keys\<close> and \<open>dbName\<close> are a string or
  \<open>null\<close>, and so are the user and the password of \<open>smtp\<close>. The options of the
  \<open>backup\<close> command are read as flags.
\<close>

record smtp_config =
  smtp_host :: string
  smtp_port :: int
  smtp_secure :: bool
  smtp_user :: "string option"
  smtp_pass :: "string option"

record config =
  config_email :: "string option"
  config_keys :: "string option"
  config_dbName :: "string option"
  config_workDir :: string
  config_smtp :: smtp_config

record backup_options =
  noEmail :: bool
  keepFiles :: bool

text \<open>
  What the program cannot decide: the clock, failures of the file system that the
  entries do not explain (permissions, busy files, I/O errors), how far a recursive
  removal got before it failed, the external tools run through the shell, the archiver,
  the post-quantum helper, the mail transport, the content of JSON files and the size of
  files. Each answer may depend on the instant of the call. A tool leaves the disk in
  any state it likes. The merge of the saved
  configuration with the command line (\<open>mergeConfig\<close> of config.js) and \<open>formatBytes\<close>
  of encrypt.js, which computes with floating-point logarithms, are taken as given too.
\<close>

text \<open>
  How an archiving ends: the output stream closes, or the archiver emits \<open>error\<close> with
  a message, or the output stream emits \<open>error\<close> (the file cannot be opened or
  written).
\<close>

datatype archive_event =
    OutputClosed
  | ArchiverError string
  | OutputError js_error

record env =
  now_at :: "nat \<Rightarrow> date"
  fs_fault :: "nat \<Rightarrow> fsop \<Rightarrow> js_error option"
  rm_partial :: "nat \<Rightarrow> path \<Rightarrow> bool"
  exec_run :: "nat \<Rightarrow> exec_call \<Rightarrow> disk \<Rightarrow> (js_error + string) \<times> disk"
  archive_run :: "nat \<Rightarrow> path \<Rightarrow> path \<Rightarrow> disk \<Rightarrow> archive_event \<times> disk"
  encryptFile :: "nat \<Rightarrow> path \<Rightarrow> path \<Rightarrow> jsval \<Rightarrow> disk \<Rightarrow> js_error option \<times> disk"
  decryptFile :: "nat \<Rightarrow> path \<Rightarrow> path \<Rightarrow> jsval \<Rightarrow> disk \<Rightarrow> js_error option \<times> disk"
  sendMail :: "nat \<Rightarrow> transporter \<Rightarrow> mail \<Rightarrow> js_error option"
  read_json :: "nat \<Rightarrow> path \<Rightarrow> js_error + jsval"
  size_of :: "nat \<Rightarrow> path \<Rightarrow> nat"
  toISOString :: "nat \<Rightarrow> string"
  mergeConfig :: "nat \<Rightarrow> backup_options \<Rightarrow> js_error + config"
  formatBytes :: "nat \<Rightarrow> string"
  cwd :: path
  homedir :: path

text \<open>
  An asynchronous function: from the state before the call to its settlement, a
  rejection (\<open>Inl\<close>) or a value (\<open>Inr\<close>), and the state after.
\<close>

type_synonym 'a io = "world \<Rightarrow> (js_error + 'a) \<times> world"

definition resolve :: "'a \<Rightarrow> 'a io" where
  "resolve x w = (Inr x, w)"

definition throw :: "js_error \<Rightarrow> 'a io" where
  "throw e w = (Inl e, w)"

text \<open>\<open>const x = await m; f x\<close>\<close>

definition await :: "'a io \<Rightarrow> ('a \<Rightarrow> 'b io) \<Rightarrow> 'b io" where
  "await m f w = (case m w of (Inl e, w') \<Rightarrow> (Inl e, w') | (Inr x, w') \<Rightarrow> f x w')"

text \<open>\<open>try { m } catch (error) { h error }\<close>\<close>

definition try_catch :: "'a io \<Rightarrow> (js_error \<Rightarrow> 'a io) \<Rightarrow> 'a io" where
  "try_catch m h w = (case m w of (Inl e, w') \<Rightarrow> h e w' | (Inr x, w') \<Rightarrow> (Inr x, w'))"

text \<open>
  \<open>try { m } finally { c }\<close>: the block \<open>c\<close> runs on every completion of \<open>m\<close>; the
  completion of \<open>m\<close> stands unless \<open>c\<close> itself throws.
\<close>

definition try_finally :: "'a io \<Rightarrow> unit io \<Rightarrow> 'a io" where
  "try_finally m c w =
     (case m w of (r, w') \<Rightarrow>
        (case c w' of (Inl e, w'') \<Rightarrow> (Inl e, w'') | (Inr u, w'') \<Rightarrow> (r, w'')))"

text \<open>
  An asynchronous function that may take the process down: an \<open>error\<close> event on an
  emitter with no listener for it is an uncaught exception, the process dies and the
  promise never settles. \<open>Settles\<close> carries the settlement, \<open>Dies\<close> the uncaught error.
  Nothing runs after the death: no \<open>catch\<close>, no continuation.
\<close>

datatype 'a fate = Settles "js_error + 'a" | Dies js_error

type_synonym 'a proc = "world \<Rightarrow> 'a fate \<times> world"

definition settled :: "'a io \<Rightarrow> 'a proc" where
  "settled m w = (case m w of (r, w') \<Rightarrow> (Settles r, w'))"

definition await_proc :: "'a proc \<Rightarrow> ('a \<Rightarrow> 'b proc) \<Rightarrow> 'b proc" where
  "await_proc m f w =
     (case m w of
        (Settles (Inr x), w') \<Rightarrow> f x w'
      | (Settles (Inl e), w') \<Rightarrow> (Settles (Inl e), w')
      | (Dies e, w') \<Rightarrow> (Dies e, w'))"

definition try_catch_proc :: "'a proc \<Rightarrow> (js_error \<Rightarrow> 'a proc) \<Rightarrow> 'a proc" where
  "try_catch_proc m h w =
     (case m w of
        (Settles (Inl e), w') \<Rightarrow> h e w'
      | (Settles (Inr x), w') \<Rightarrow> (Settles (Inr x), w')
      | (Dies e, w') \<Rightarrow> (Dies e, w'))"

definition tick :: "world \<Rightarrow> world" where
  "tick w = w\<lparr>time := Suc (time w)\<rparr>"

text \<open>\<open>console.log\<close>, \<open>console.warn\<close> and \<open>console.error\<close>: the arguments joined by a space.\<close>

definition console_log :: "string list \<Rightarrow> unit io" where
  "console_log args w = (Inr (), w\<lparr>console := console w @ [(Stdout, join '' '' args)]\<rparr>)"

definition console_warn :: "string list \<Rightarrow> unit io" where
  "console_warn args w = (Inr (), w\<lparr>console := console w @ [(Stderr, join '' '' args)]\<rparr>)"

definition console_error :: "string list \<Rightarrow> unit io" where
  "console_error args w = (Inr (), w\<lparr>console := console w @ [(Stderr, join '' '' args)]\<rparr>)"

subsection \<open>The file system calls of \<open>fs.promises\<close>\<close>

definition is_file :: "world \<Rightarrow> path \<Rightarrow> bool" where
  "is_file w p \<longleftrightarrow> (p, File) \<in> set (nodes w)"

definition is_dir :: "world \<Rightarrow> path \<Rightarrow> bool" where
  "is_dir w p \<longleftrightarrow> (p, Dir) \<in> set (nodes w)"

definition exists_path :: "world \<Rightarrow> path \<Rightarrow> bool" where
  "exists_path w p \<longleftrightarrow> is_file w p \<or> is_dir w p"

definition sys_error :: "string \<Rightarrow> string \<Rightarrow> string \<Rightarrow> path \<Rightarrow> js_error" where
  "sys_error c what syscall p =
     JsError (Some c) (c @ '': '' @ what @ '', '' @ syscall @ '' '' @ [CHR 0x27] @ p @ [CHR 0x27])"

definition ENOENT :: "string \<Rightarrow> path \<Rightarrow> js_error" where
  "ENOENT syscall p = sys_error ''ENOENT'' ''no such file or directory'' syscall p"

definition ENOTDIR :: "string \<Rightarrow> path \<Rightarrow> js_error" where
  "ENOTDIR syscall p = sys_error ''ENOTDIR'' ''not a directory'' syscall p"

text \<open>\<open>below_file w p\<close>: a leading component of \<open>p\<close> is a regular file.\<close>

definition below_file :: "world \<Rightarrow> path \<Rightarrow> bool" where
  "below_file w p \<longleftrightarrow> list_ex (is_file w) (parents p)"

text \<open>
  A call on a single entry first meets the environment: when it reports a failure the
  call rejects with it and changes nothing. Otherwise the entries decide, and a path
  below a regular file is refused with \<open>ENOTDIR\<close>.
\<close>

definition fs_call :: "env \<Rightarrow> fsop \<Rightarrow> 'a io \<Rightarrow> 'a io" where
  "fs_call E op body w =
     (case fs_fault E (time w) op of
        Some e \<Rightarrow> (Inl e, tick w)
      | None \<Rightarrow> body (tick w))"

definition fs_access :: "env \<Rightarrow> path \<Rightarrow> unit io" where
  "fs_access E p =
     fs_call E (Access p)
       (\<lambda>w. if below_file w p then (Inl (ENOTDIR ''access'' p), w)
            else if exists_path w p then (Inr (), w)
            else (Inl (ENOENT ''access'' p), w))"

text \<open>\<open>fs.unlink\<close>: removes a file; a directory is refused (\<open>EISDIR\<close>, as on Linux).\<close>

definition fs_unlink :: "env \<Rightarrow> path \<Rightarrow> unit io" where
  "fs_unlink E p =
     fs_call E (Unlink p)
       (\<lambda>w. if below_file w p then (Inl (ENOTDIR ''unlink'' p), w)
            else if is_file w p
            then (Inr (), w\<lparr>nodes := filter (\<lambda>n. fst n \<noteq> p) (nodes w)\<rparr>)
            else if is_dir w p
            then (Inl (sys_error ''EISDIR'' ''illegal operation on a directory'' ''unlink'' p), w)
            else (Inl (ENOENT ''unlink'' p), w))"

text \<open>\<open>fs.mkdir(p, { recursive: true })\<close>: creates the directory and those above it.\<close>

definition add_dir :: "path \<Rightarrow> disk \<Rightarrow> disk" where
  "add_dir p d = (if (p, Dir) \<in> set d then d else d @ [(p, Dir)])"

definition fs_mkdir_recursive :: "env \<Rightarrow> path \<Rightarrow> unit io" where
  "fs_mkdir_recursive E p =
     fs_call E (Mkdir p)
       (\<lambda>w. if is_file w p
            then (Inl (sys_error ''EEXIST'' ''file already exists'' ''mkdir'' p), w)
            else if below_file w p
            then (Inl (ENOTDIR ''mkdir'' p), w)
            else (Inr (), w\<lparr>nodes := fold add_dir (parents p @ [p]) (nodes w)\<rparr>))"

text \<open>
  \<open>fs.rm(p, { recursive: true, force: true })\<close>: removes \<open>p\<close> and everything below it;
  a path that does not exist is no error. The removal goes entry by entry, the
  entries below \<open>p\<close> first and \<open>p\<close> itself last: when it fails, the entries below \<open>p\<close>
  that were removed before the failure are gone, which those are is the environment's,
  and \<open>p\<close> itself is still there.
\<close>

definition fs_rm_recursive_force :: "env \<Rightarrow> path \<Rightarrow> unit io" where
  "fs_rm_recursive_force E p w =
     (case fs_fault E (time w) (Rm p) of
        Some e \<Rightarrow>
          (Inl e,
           (tick w)\<lparr>nodes :=
              filter (\<lambda>n. \<not> (within p (fst n) \<and> fst n \<noteq> p \<and> rm_partial E (time w) (fst n)))
                (nodes w)\<rparr>)
      | None \<Rightarrow>
          (Inr (), (tick w)\<lparr>nodes := filter (\<lambda>n. \<not> within p (fst n)) (nodes w)\<rparr>))"

definition fs_readdir :: "env \<Rightarrow> path \<Rightarrow> string list io" where
  "fs_readdir E d =
     fs_call E (Readdir d)
       (\<lambda>w. if below_file w d then (Inl (ENOTDIR ''scandir'' d), w)
            else if is_dir w d
            then (Inr (List.map_filter (\<lambda>n. child_name d (fst n)) (nodes w)), w)
            else if is_file w d
            then (Inl (ENOTDIR ''scandir'' d), w)
            else (Inl (ENOENT ''scandir'' d), w))"

text \<open>\<open>(await fs.stat(p)).size\<close>\<close>

definition fs_stat_size :: "env \<Rightarrow> path \<Rightarrow> nat io" where
  "fs_stat_size E p =
     fs_call E (Stat p)
       (\<lambda>w. if below_file w p then (Inl (ENOTDIR ''stat'' p), w)
            else if exists_path w p then (Inr (size_of E (time w) p), w)
            else (Inl (ENOENT ''stat'' p), w))"

text \<open>
  \<open>promisify(exec)(cmd, options)\<close>: the call is recorded, the tool runs and leaves its
  standard error output, or the promise rejects.
\<close>

definition execAsync :: "env \<Rightarrow> exec_call \<Rightarrow> string io" where
  "execAsync E c w =
     (case exec_run E (time w) c (nodes w) of
        (r, d) \<Rightarrow> (r, (tick w)\<lparr>nodes := d, execd := execd w @ [c]\<rparr>))"

definition sh :: "string \<Rightarrow> exec_call" where
  "sh cmd = \<lparr>command = cmd, maxBuffer = None, extra_env = [], shell = None\<rparr>"

text \<open>The same with \<open>{ maxBuffer: 50 * 1024 * 1024 }\<close>.\<close>

definition sh_buffered :: "string \<Rightarrow> exec_call" where
  "sh_buffered cmd = (sh cmd)\<lparr>maxBuffer := Some (50 * 1024 * 1024)\<rparr>"

section \<open>utils.js: files\<close>

definition ensureDirectory :: "env \<Rightarrow> path \<Rightarrow> unit io" where
  "ensureDirectory E dirPath =
     try_catch (fs_access E dirPath) (\<lambda>_. fs_mkdir_recursive E dirPath)"

definition deleteFile :: "env \<Rightarrow> path \<Rightarrow> unit io" where
  "deleteFile E filePath =
     try_catch (fs_unlink E filePath)
       (\<lambda>error. if code error \<noteq> Some ''ENOENT'' then throw error else resolve ())"

text \<open>
  \<open>readJsonFile\<close>: reading and parsing are the environment's; a failure of either is
  wrapped.
\<close>

definition readJsonFile :: "env \<Rightarrow> path \<Rightarrow> jsval io" where
  "readJsonFile E filePath w =
     (case read_json E (time w) filePath of
        Inl error \<Rightarrow>
          (Inl (Error (''Failed to read JSON file '' @ filePath @ '': '' @ message error)), tick w)
      | Inr v \<Rightarrow> (Inr v, tick w))"

text \<open>
  \<open>key in obj\<close>: a \<open>TypeError\<close> on a primitive. Of the properties of an object its own
  are modelled, of an array its indices and \<open>length\<close>; inherited properties are left out.
\<close>

definition key_in :: "string \<Rightarrow> jsval \<Rightarrow> js_error + bool" where
  "key_in k v =
     (case v of
        Obj kvs \<Rightarrow> Inr (k \<in> set (map fst kvs))
      | Arr xs \<Rightarrow> Inr (k = ''length'' \<or> k \<in> set (map string_of_nat [0..<length xs]))
      | _ \<Rightarrow> Inl (TypeError (''Cannot use 'in' operator to search for '' @ [CHR 0x27] @ k
                @ [CHR 0x27] @ '' in '' @ to_string v)))"

text \<open>\<open>requiredKeys.filter((key) => !(key in obj))\<close>, stopping at the first throw.\<close>

fun missing_keys :: "jsval \<Rightarrow> string list \<Rightarrow> js_error + string list" where
  "missing_keys obj [] = Inr []"
| "missing_keys obj (key # keys) =
     (case key_in key obj of
        Inl e \<Rightarrow> Inl e
      | Inr present \<Rightarrow>
          (case missing_keys obj keys of
             Inl e \<Rightarrow> Inl e
           | Inr rest \<Rightarrow> Inr (if \<not> present then key # rest else rest)))"

definition validateRequiredKeys :: "jsval \<Rightarrow> string list \<Rightarrow> js_error + unit" where
  "validateRequiredKeys obj requiredKeys =
     (case missing_keys obj requiredKeys of
        Inl e \<Rightarrow> Inl e
      | Inr missingKeys \<Rightarrow>
          if length missingKeys > 0
          then Inl (Error (''Missing required keys: '' @ join '', '' missingKeys))
          else Inr ())"

text \<open>A synchronous call inside an asynchronous function.\<close>

definition lift :: "js_error + 'a \<Rightarrow> 'a io" where
  "lift r w = (r, w)"

section \<open>encrypt.js\<close>

definition loadKeys :: "env \<Rightarrow> path \<Rightarrow> jsval io" where
  "loadKeys E keysPath =
     await (readJsonFile E keysPath) (\<lambda>keys.
     await (lift (validateRequiredKeys keys [''publicKey'', ''privateKey''])) (\<lambda>_.
     resolve keys))"

section \<open>The providers\<close>

datatype provider = Supabase | MongoDB | MySQL | PostgreSQL

fun displayName :: "provider \<Rightarrow> string" where
  "displayName Supabase = ''Supabase''"
| "displayName MongoDB = ''MongoDB''"
| "displayName MySQL = ''MySQL''"
| "displayName PostgreSQL = ''PostgreSQL''"

fun getFileExtension :: "provider \<Rightarrow> string" where
  "getFileExtension Supabase = ''sql''"
| "getFileExtension MongoDB = ''archive''"
| "getFileExtension MySQL = ''sql''"
| "getFileExtension PostgreSQL = ''dump''"

text \<open>The command whose success \<open>isAvailable\<close> takes for the presence of the tool.\<close>

fun version_probe :: "provider \<Rightarrow> string" where
  "version_probe Supabase = ''pnpx supabase --version''"
| "version_probe MongoDB = ''mongodump --version''"
| "version_probe MySQL = ''mysqldump --version''"
| "version_probe PostgreSQL = ''pg_dump --version''"

fun isAvailable :: "env \<Rightarrow> provider \<Rightarrow> bool io" where
  "isAvailable E Supabase =
     try_catch (await (execAsync E (sh ''pnpx supabase --version'')) (\<lambda>_. resolve True))
       (\<lambda>_. resolve False)"
| "isAvailable E MongoDB =
     try_catch (await (execAsync E (sh ''mongodump --version'')) (\<lambda>_. resolve True))
       (\<lambda>_. resolve False)"
| "isAvailable E MySQL =
     try_catch (await (execAsync E (sh ''mysqldump --version'')) (\<lambda>_. resolve True))
       (\<lambda>_. resolve False)"
| "isAvailable E PostgreSQL =
     try_catch (await (execAsync E (sh ''pg_dump --version'')) (\<lambda>_. resolve True))
       (\<lambda>_. resolve False)"

text \<open>A destructuring default \<open>{ k = d }\<close> applies when the property is \<open>undefined\<close>.\<close>

definition defaulted :: "jsval \<Rightarrow> jsval \<Rightarrow> jsval" where
  "defaulted v d = (if v = Undefined then d else v)"

definition dquote :: string where
  "dquote = [CHR 0x22]"

text \<open>\<open>if (stderr && !stderr.includes(marker)) console.warn(label, stderr)\<close>\<close>

definition warn_unless :: "string \<Rightarrow> string \<Rightarrow> string \<Rightarrow> unit io" where
  "warn_unless marker label stderr =
     (if stderr \<noteq> [] \<and> \<not> str_includes stderr marker
      then console_warn [label, stderr] else resolve ())"

text \<open>\<open>parts.filter(Boolean).join(' ')\<close> on strings.\<close>

definition command_line :: "string list \<Rightarrow> string" where
  "command_line parts = join '' '' (filter (\<lambda>s. s \<noteq> []) parts)"

text \<open>\<open>{ ...process.env, ...(password && { PGPASSWORD: password }) }\<close>, the part added.\<close>

definition pgpassword :: "jsval \<Rightarrow> (string \<times> string) list" where
  "pgpassword password =
     (if truthy password then [(''PGPASSWORD'', to_string password)] else [])"

fun createDump :: "env \<Rightarrow> provider \<Rightarrow> path \<Rightarrow> jsobj \<Rightarrow> unit io" where
  "createDump E Supabase outputPath options =
     try_catch
       (await (execAsync E (sh_buffered (''pnpx supabase db dump -f '' @ outputPath)))
          (warn_unless ''Dumping'' ''Database dump warnings:''))
       (\<lambda>error. throw (Error (''Supabase dump failed: '' @ message error)))"
| "createDump E MongoDB outputPath options =
     try_catch
       (let uri = get_prop options ''uri'';
            database = get_prop options ''database''
        in if \<not> truthy uri then throw (Error ''MongoDB URI is required'')
           else
             let cmd = command_line
                   [''mongodump'',
                    ''--uri='' @ dquote @ to_string uri @ dquote,
                    if truthy database then ''--db='' @ dquote @ to_string database @ dquote
                    else [],
                    ''--archive='' @ dquote @ outputPath @ dquote,
                    ''--gzip'']
             in await (execAsync E (sh_buffered cmd))
                  (warn_unless ''done'' ''MongoDB dump warnings:''))
       (\<lambda>error. throw (Error (''MongoDB dump failed: '' @ message error)))"
| "createDump E MySQL outputPath options =
     try_catch
       (let host = defaulted (get_prop options ''host'') (Str ''localhost'');
            port = defaulted (get_prop options ''port'') (Num 3306);
            user = get_prop options ''user'';
            password = get_prop options ''password'';
            database = get_prop options ''database''
        in if \<not> truthy user \<or> \<not> truthy database
           then throw (Error ''MySQL user and database are required'')
           else
             let cmd = command_line
                   [''mysqldump'',
                    ''--host='' @ to_string host,
                    ''--port='' @ to_string port,
                    ''--user='' @ to_string user,
                    if truthy password then ''--password='' @ to_string password else [],
                    ''--single-transaction'',
                    ''--routines'',
                    ''--triggers'',
                    ''--events'',
                    ''--result-file='' @ outputPath,
                    to_string database]
             in await (execAsync E (sh_buffered cmd))
                  (warn_unless ''Warning'' ''MySQL dump warnings:''))
       (\<lambda>error. throw (Error (''MySQL dump failed: '' @ message error)))"
| "createDump E PostgreSQL outputPath options =
     try_catch
       (let host = defaulted (get_prop options ''host'') (Str ''localhost'');
            port = defaulted (get_prop options ''port'') (Num 5432);
            user = get_prop options ''user'';
            password = get_prop options ''password'';
            database = get_prop options ''database'';
            format = defaulted (get_prop options ''format'') (Str ''custom'')
        in if \<not> truthy user \<or> \<not> truthy database
           then throw (Error ''PostgreSQL user and database are required'')
           else
             let cmd = join '' ''
                   [''pg_dump'',
                    ''--host='' @ to_string host,
                    ''--port='' @ to_string port,
                    ''--username='' @ to_string user,
                    ''--format='' @ to_string format,
                    ''--verbose'',
                    ''--no-owner'',
                    ''--no-acl'',
                    ''--file='' @ outputPath,
                    to_string database]
             in await (execAsync E ((sh_buffered cmd)\<lparr>extra_env := pgpassword password\<rparr>))
                  (warn_unless ''pg_dump'' ''PostgreSQL dump warnings:''))
       (\<lambda>error. throw (Error (''PostgreSQL dump failed: '' @ message error)))"

fun restoreFromDump :: "env \<Rightarrow> provider \<Rightarrow> path \<Rightarrow> jsobj \<Rightarrow> unit io" where
  "restoreFromDump E Supabase dumpPath options =
     try_catch
       (await (execAsync E (sh_buffered (''pnpx supabase db reset --db-url file://'' @ dumpPath)))
          (warn_unless ''Restoring'' ''Database restore warnings:''))
       (\<lambda>error. throw (Error (''Supabase restore failed: '' @ message error)))"
| "restoreFromDump E MongoDB dumpPath options =
     try_catch
       (let uri = get_prop options ''uri'';
            database = get_prop options ''database'';
            drop = defaulted (get_prop options ''drop'') (Bool False)
        in if \<not> truthy uri then throw (Error ''MongoDB URI is required for restore'')
           else
             let cmd = command_line
                   [''mongorestore'',
                    ''--uri='' @ dquote @ to_string uri @ dquote,
                    if truthy database then ''--db='' @ dquote @ to_string database @ dquote
                    else [],
                    if truthy drop then ''--drop'' else [],
                    ''--archive='' @ dquote @ dumpPath @ dquote,
                    ''--gzip'']
             in await (execAsync E (sh_buffered cmd))
                  (warn_unless ''done'' ''MongoDB restore warnings:''))
       (\<lambda>error. throw (Error (''MongoDB restore failed: '' @ message error)))"
| "restoreFromDump E MySQL dumpPath options =
     try_catch
       (let host = defaulted (get_prop options ''host'') (Str ''localhost'');
            port = defaulted (get_prop options ''port'') (Num 3306);
            user = get_prop options ''user'';
            password = get_prop options ''password'';
            database = get_prop options ''database''
        in if \<not> truthy user \<or> \<not> truthy database
           then throw (Error ''MySQL user and database are required for restore'')
           else
             let cmd = command_line
                   [''mysql'',
                    ''--host='' @ to_string host,
                    ''--port='' @ to_string port,
                    ''--user='' @ to_string user,
                    if truthy password then ''--password='' @ to_string password else [],
                    to_string database,
                    ''< '' @ dumpPath]
             in await (execAsync E ((sh_buffered cmd)\<lparr>shell := Some ''/bin/bash''\<rparr>))
                  (warn_unless ''Warning'' ''MySQL restore warnings:''))
       (\<lambda>error. throw (Error (''MySQL restore failed: '' @ message error)))"
| "restoreFromDump E PostgreSQL dumpPath options =
     try_catch
       (let host = defaulted (get_prop options ''host'') (Str ''localhost'');
            port = defaulted (get_prop options ''port'') (Num 5432);
            user = get_prop options ''user'';
            password = get_prop options ''password'';
            database = get_prop options ''database'';
            clean = defaulted (get_prop options ''clean'') (Bool False)
        in if \<not> truthy user \<or> \<not> truthy database
           then throw (Error ''PostgreSQL user and database are required for restore'')
           else
             let cmd = command_line
                   [''pg_restore'',
                    ''--host='' @ to_string host,
                    ''--port='' @ to_string port,
                    ''--username='' @ to_string user,
                    ''--dbname='' @ to_string database,
                    ''--verbose'',
                    ''--no-owner'',
                    ''--no-acl'',
                    if truthy clean then ''--clean'' else [],
                    ''--if-exists'',
                    dumpPath]
             in await (execAsync E ((sh_buffered cmd)\<lparr>extra_env := pgpassword password\<rparr>))
                  (warn_unless ''pg_restore'' ''PostgreSQL restore warnings:''))
       (\<lambda>error. throw (Error (''PostgreSQL restore failed: '' @ message error)))"

text \<open>The result of \<open>validateConfig\<close>: \<open>{ valid: errors.length === 0, errors }\<close>.\<close>

record validation =
  valid :: bool
  errors :: "string list"

definition validation_of :: "string list \<Rightarrow> validation" where
  "validation_of errs = \<lparr>valid = (length errs = 0), errors = errs\<rparr>"

text \<open>
  \<open>validateConfig\<close> of each provider. MongoDB calls \<open>startsWith\<close> on a truthy
  \<open>mongodbUri\<close>, which only a string has: on any other truthy value the call throws.
\<close>

fun validateConfig :: "provider \<Rightarrow> jsobj \<Rightarrow> js_error + validation" where
  "validateConfig Supabase config = Inr (validation_of [])"
| "validateConfig MongoDB config =
     (let mongodbUri = get_prop config ''mongodbUri''
      in if \<not> truthy mongodbUri then Inr (validation_of [])
         else case mongodbUri of
                Str s \<Rightarrow>
                  Inr (validation_of
                    (if \<not> startsWith s ''mongodb://''
                     then [''MongoDB URI must start with mongodb://''] else []))
              | _ \<Rightarrow> Inl (TypeError ''config.mongodbUri.startsWith is not a function''))"
| "validateConfig MySQL config =
     Inr (validation_of
       ((if \<not> truthy (get_prop config ''mysqlUser'') then [''MySQL user is required'']
         else []) @
        (if \<not> truthy (get_prop config ''mysqlDatabase'')
         then [''MySQL database is required''] else [])))"
| "validateConfig PostgreSQL config =
     Inr (validation_of
       ((if \<not> truthy (get_prop config ''postgresUser'')
         then [''PostgreSQL user is required''] else []) @
        (if \<not> truthy (get_prop config ''postgresDatabase'')
         then [''PostgreSQL database is required''] else [])))"

subsection \<open>The registry\<close>

definition toLowerCase :: "string \<Rightarrow> string" where
  "toLowerCase s =
     map (\<lambda>c. case map_of (zip ''ABCDEFGHIJKLMNOPQRSTUVWXYZ'' ''abcdefghijklmnopqrstuvwxyz'') c of
                 None \<Rightarrow> c | Some l \<Rightarrow> l) s"

definition providers :: "(string \<times> provider) list" where
  "providers =
     [(''supabase'', Supabase), (''mongodb'', MongoDB), (''mysql'', MySQL),
      (''postgres'', PostgreSQL), (''postgresql'', PostgreSQL)]"

definition getProvider :: "string \<Rightarrow> js_error + provider" where
  "getProvider name =
     (case map_of providers (toLowerCase name) of
        None \<Rightarrow>
          Inl (Error (''Provider '' @ [CHR 0x27] @ name @ [CHR 0x27]
                 @ '' not found. Available providers: '' @ join '', '' (map fst providers)))
      | Some provider \<Rightarrow> Inr provider)"

definition defaultProvider :: provider where
  "defaultProvider = Supabase"

text \<open>\<open>providerName ? getProvider(providerName) : defaultProvider\<close>\<close>

definition select_provider :: "string \<Rightarrow> js_error + provider" where
  "select_provider providerName =
     (if providerName \<noteq> [] then getProvider providerName else Inr defaultProvider)"

section \<open>backup.js\<close>

definition dumpDatabase :: "env \<Rightarrow> path \<Rightarrow> string \<Rightarrow> jsobj \<Rightarrow> unit io" where
  "dumpDatabase E outputPath providerName options =
     try_catch
       (await (lift (select_provider providerName)) (\<lambda>provider.
        await (isAvailable E provider) (\<lambda>available.
        if \<not> available
        then throw (Error (displayName provider
               @ '' is not available. Please ensure it is installed and configured.''))
        else await (createDump E provider outputPath options) (\<lambda>_.
             fs_access E outputPath))))
       (\<lambda>error. throw (Error (''Database dump failed: '' @ message error)))"

text \<open>
  \<open>createZipArchive\<close>: the promise resolves on \<open>close\<close> of the output stream and
  rejects on \<open>error\<close> of the archiver, whichever the environment lets happen first.
  The output stream has no listener for \<open>error\<close>: when it emits one, the exception is
  uncaught, the process dies and the promise is never settled.
\<close>

definition createZipArchive :: "env \<Rightarrow> path \<Rightarrow> path \<Rightarrow> unit proc" where
  "createZipArchive E sourceFile outputZip w =
     (case archive_run E (time w) sourceFile outputZip (nodes w) of
        (OutputClosed, d) \<Rightarrow> (Settles (Inr ()), (tick w)\<lparr>nodes := d\<rparr>)
      | (ArchiverError msg, d) \<Rightarrow>
          (Settles (Inl (Error (''ZIP creation failed: '' @ msg))), (tick w)\<lparr>nodes := d\<rparr>)
      | (OutputError e, d) \<Rightarrow> (Dies e, (tick w)\<lparr>nodes := d\<rparr>))"

definition new_Date :: "env \<Rightarrow> date io" where
  "new_Date E w = (Inr (now_at E (time w)), tick w)"

text \<open>
  \<open>createBackup\<close> in its three blocks: what precedes the \<open>try\<close>, the body of the
  \<open>try\<close>, and the clean-up of the \<open>catch\<close>.
\<close>

definition backup_setup :: "env \<Rightarrow> string \<Rightarrow> path \<Rightarrow> string \<Rightarrow> (provider \<times> string \<times> string) io" where
  "backup_setup E dbName workDir providerName =
     await (ensureDirectory E workDir) (\<lambda>_.
     await (lift (select_provider providerName)) (\<lambda>provider.
     let fileExtension = getFileExtension provider in
     await (new_Date E) (\<lambda>now1.
     let dumpFilename = generateBackupFilename now1 dbName fileExtension in
     await (new_Date E) (\<lambda>now2.
     let zipFilename = generateBackupFilename now2 dbName ''zip'' in
     resolve (provider, dumpFilename, zipFilename)))))"

definition backup_stages ::
  "env \<Rightarrow> provider \<Rightarrow> path \<Rightarrow> string \<Rightarrow> string \<Rightarrow> string \<Rightarrow> jsobj \<Rightarrow> (path \<times> path) proc" where
  "backup_stages E provider workDir dumpFilename zipFilename providerName providerOptions =
     (let dumpPath = path_join workDir dumpFilename;
          zipPath = path_join workDir zipFilename
      in await_proc (settled (console_log
                 [''Creating '' @ displayName provider @ '' database dump: '' @ dumpFilename])) (\<lambda>_.
         await_proc (settled (dumpDatabase E dumpPath providerName providerOptions)) (\<lambda>_.
         await_proc (settled (console_log [''Creating ZIP archive: '' @ zipFilename])) (\<lambda>_.
         await_proc (createZipArchive E dumpPath zipPath) (\<lambda>_.
         settled (resolve (dumpPath, zipPath)))))))"

definition backup_cleanup :: "env \<Rightarrow> path \<Rightarrow> path \<Rightarrow> unit io" where
  "backup_cleanup E dumpPath zipPath =
     try_catch
       (await (try_catch (fs_unlink E dumpPath) (\<lambda>_. resolve ())) (\<lambda>_.
        try_catch (fs_unlink E zipPath) (\<lambda>_. resolve ())))
       (\<lambda>_. resolve ())"

definition createBackup :: "env \<Rightarrow> string \<Rightarrow> path \<Rightarrow> string \<Rightarrow> jsobj \<Rightarrow> (path \<times> path) proc" where
  "createBackup E dbName workDir providerName providerOptions =
     await_proc (settled (backup_setup E dbName workDir providerName))
       (\<lambda>(provider, dumpFilename, zipFilename).
          try_catch_proc
            (backup_stages E provider workDir dumpFilename zipFilename providerName
               providerOptions)
            (\<lambda>error.
               settled
                 (await (backup_cleanup E (path_join workDir dumpFilename)
                           (path_join workDir zipFilename)) (\<lambda>_.
                  throw error))))"

section \<open>encrypt.js: the cipher\<close>

text \<open>
  \<open>keys.publicKey\<close>: reading a property of \<open>null\<close> or \<open>undefined\<close> throws; a primitive
  and an array have no such property.
\<close>

definition member :: "jsval \<Rightarrow> string \<Rightarrow> js_error + jsval" where
  "member v k =
     (case v of
        Obj kvs \<Rightarrow> Inr (get_prop kvs k)
      | Undefined \<Rightarrow>
          Inl (TypeError (''Cannot read properties of undefined (reading '' @ [CHR 0x27] @ k
                 @ [CHR 0x27] @ '')''))
      | Null \<Rightarrow>
          Inl (TypeError (''Cannot read properties of null (reading '' @ [CHR 0x27] @ k
                 @ [CHR 0x27] @ '')''))
      | _ \<Rightarrow> Inr Undefined)"

text \<open>A call of \<open>encryptFile\<close> or \<open>decryptFile\<close> of the post-quantum helper.\<close>

definition call_helper ::
  "(nat \<Rightarrow> path \<Rightarrow> path \<Rightarrow> jsval \<Rightarrow> disk \<Rightarrow> js_error option \<times> disk) \<Rightarrow>
     path \<Rightarrow> path \<Rightarrow> jsval \<Rightarrow> unit io" where
  "call_helper f inputFile outputFile key w =
     (case f (time w) inputFile outputFile key (nodes w) of
        (None, d) \<Rightarrow> (Inr (), (tick w)\<lparr>nodes := d\<rparr>)
      | (Some e, d) \<Rightarrow> (Inl e, (tick w)\<lparr>nodes := d\<rparr>))"

definition encryptBackupFile :: "env \<Rightarrow> path \<Rightarrow> path \<Rightarrow> jsval \<Rightarrow> unit io" where
  "encryptBackupFile E inputFile outputFile keys =
     try_catch
       (await (fs_access E inputFile) (\<lambda>_.
        await (lift (member keys ''publicKey'')) (\<lambda>publicKey.
        await (call_helper (encryptFile E) inputFile outputFile publicKey) (\<lambda>_.
        fs_access E outputFile))))
       (\<lambda>error. throw (Error (''Encryption failed: '' @ message error)))"

definition decryptBackupFile :: "env \<Rightarrow> path \<Rightarrow> path \<Rightarrow> jsval \<Rightarrow> unit io" where
  "decryptBackupFile E inputFile outputFile keys =
     try_catch
       (await (fs_access E inputFile) (\<lambda>_.
        await (lift (member keys ''privateKey'')) (\<lambda>privateKey.
        await (call_helper (decryptFile E) inputFile outputFile privateKey) (\<lambda>_.
        fs_access E outputFile))))
       (\<lambda>error. throw (Error (''Decryption failed: '' @ message error)))"

definition getFileSize :: "env \<Rightarrow> path \<Rightarrow> nat io" where
  "getFileSize E filePath = fs_stat_size E filePath"

section \<open>Console glyphs\<close>

text \<open>The symbols of the console messages, as the bytes of their UTF-8 encoding.\<close>

definition newline :: string where "newline = [CHR 0x0A]"
definition glyph_check :: string where "glyph_check = [CHR 0xE2, CHR 0x9C, CHR 0x93]"
definition glyph_done :: string where "glyph_done = [CHR 0xE2, CHR 0x9C, CHR 0x85]"
definition glyph_cross :: string where "glyph_cross = [CHR 0xE2, CHR 0x9D, CHR 0x8C]"
definition glyph_warning :: string where
  "glyph_warning = [CHR 0xE2, CHR 0x9A, CHR 0xA0, CHR 0xEF, CHR 0xB8, CHR 0x8F]"
definition glyph_unlock :: string where "glyph_unlock = [CHR 0xF0, CHR 0x9F, CHR 0x94, CHR 0x93]"
definition glyph_lock :: string where "glyph_lock = [CHR 0xF0, CHR 0x9F, CHR 0x94, CHR 0x92]"
definition glyph_lock_key :: string where "glyph_lock_key = [CHR 0xF0, CHR 0x9F, CHR 0x94, CHR 0x90]"
definition glyph_package :: string where "glyph_package = [CHR 0xF0, CHR 0x9F, CHR 0x93, CHR 0xA6]"
definition glyph_cycle :: string where "glyph_cycle = [CHR 0xF0, CHR 0x9F, CHR 0x94, CHR 0x84]"
definition glyph_clipboard :: string where "glyph_clipboard = [CHR 0xF0, CHR 0x9F, CHR 0x93, CHR 0x8B]"
definition glyph_disk :: string where "glyph_disk = [CHR 0xF0, CHR 0x9F, CHR 0x92, CHR 0xBE]"
definition glyph_mail :: string where "glyph_mail = [CHR 0xF0, CHR 0x9F, CHR 0x93, CHR 0xA7]"
definition glyph_broom :: string where "glyph_broom = [CHR 0xF0, CHR 0x9F, CHR 0xA7, CHR 0xB9]"
definition glyph_folder :: string where "glyph_folder = [CHR 0xF0, CHR 0x9F, CHR 0x93, CHR 0x81]"

section \<open>restore.js\<close>

definition is_dump_name :: "string \<Rightarrow> bool" where
  "is_dump_name f \<longleftrightarrow>
     endsWith f ''.sql'' \<or> endsWith f ''.dump'' \<or> endsWith f ''.archive'' \<or> endsWith f ''.bson''"

definition extractZipArchive :: "env \<Rightarrow> path \<Rightarrow> path \<Rightarrow> path io" where
  "extractZipArchive E zipPath outputDir =
     await (ensureDirectory E outputDir) (\<lambda>_.
     try_catch
       (await (execAsync E (sh (''unzip -o '' @ dquote @ zipPath @ dquote @ '' -d ''
                 @ dquote @ outputDir @ dquote))) (\<lambda>_.
        await (fs_readdir E outputDir) (\<lambda>files.
        case find is_dump_name files of
          None \<Rightarrow> throw (Error ''No database dump file found in archive'')
        | Some dumpFile \<Rightarrow> resolve (path_join outputDir dumpFile))))
       (\<lambda>error. throw (Error (''Failed to extract archive: '' @ message error))))"

text \<open>
  \<open>restoreFromBackup\<close>: the body of the \<open>try\<close>, the clean-up of the \<open>finally\<close>, and
  the function.
\<close>

definition restore_stages ::
  "env \<Rightarrow> path \<Rightarrow> jsval \<Rightarrow> string \<Rightarrow> jsobj \<Rightarrow> path \<Rightarrow> path io" where
  "restore_stages E encryptedBackupPath keys providerName providerOptions workDir =
     (let decryptedZipPath = path_join workDir ''decrypted-backup.zip'';
          extractDir = path_join workDir ''extracted''
      in await (console_log [glyph_unlock @ '' Decrypting backup...'']) (\<lambda>_.
         await (decryptBackupFile E encryptedBackupPath decryptedZipPath keys) (\<lambda>_.
         await (console_log [glyph_check @ '' Backup decrypted'' @ newline]) (\<lambda>_.
         await (console_log [glyph_package @ '' Extracting archive...'']) (\<lambda>_.
         await (extractZipArchive E decryptedZipPath extractDir) (\<lambda>dumpFilePath.
         await (console_log
                 [glyph_check @ '' Archive extracted: '' @ basename dumpFilePath @ newline]) (\<lambda>_.
         await (lift (select_provider providerName)) (\<lambda>provider.
         await (console_log
                 [glyph_cycle @ '' Restoring to '' @ displayName provider @ '' database...'']) (\<lambda>_.
         await (restoreFromDump E provider dumpFilePath providerOptions) (\<lambda>_.
         await (console_log [glyph_check @ '' Database restored successfully'' @ newline]) (\<lambda>_.
         resolve dumpFilePath)))))))))))"

definition restore_cleanup :: "env \<Rightarrow> path \<Rightarrow> unit io" where
  "restore_cleanup E workDir =
     try_catch (fs_rm_recursive_force E workDir)
       (\<lambda>error. console_warn
          [''Warning: Failed to clean up temporary files:'', message error])"

definition restoreFromBackup ::
  "env \<Rightarrow> path \<Rightarrow> jsval \<Rightarrow> string \<Rightarrow> jsobj \<Rightarrow> path \<Rightarrow> path io" where
  "restoreFromBackup E encryptedBackupPath keys providerName providerOptions workDir =
     await (ensureDirectory E workDir) (\<lambda>_.
     try_finally
       (restore_stages E encryptedBackupPath keys providerName providerOptions workDir)
       (restore_cleanup E workDir))"

section \<open>email.js\<close>

text \<open>\<open>process.env.NAME\<close>, and \<open>process.env.NAME || fallback\<close>.\<close>

definition getenv :: "world \<Rightarrow> string \<Rightarrow> string option" where
  "getenv w name = map_of (environ w) name"

definition truthy_str :: "string option \<Rightarrow> bool" where
  "truthy_str v = (case v of None \<Rightarrow> False | Some s \<Rightarrow> s \<noteq> [])"

definition or_else :: "string option \<Rightarrow> string \<Rightarrow> string" where
  "or_else v fallback = (case v of None \<Rightarrow> fallback | Some s \<Rightarrow> if s \<noteq> [] then s else fallback)"

text \<open>A string or \<open>null\<close> inside a template literal or as an argument that wants a string.\<close>

definition str_of :: "string option \<Rightarrow> string" where
  "str_of v = (case v of None \<Rightarrow> ''null'' | Some s \<Rightarrow> s)"

definition createTransporter :: "transporter io" where
  "createTransporter w =
     (let user = getenv w ''SMTP_USER'';
          pass = getenv w ''SMTP_PASS''
      in if \<not> truthy_str user \<or> \<not> truthy_str pass
         then (Inl (Error
                 ''SMTP credentials not found. Set SMTP_USER and SMTP_PASS environment variables.''),
               w)
         else (Inr \<lparr>transport_host = or_else (getenv w ''SMTP_HOST'') ''smtp.gmail.com'',
                    transport_port = or_else (getenv w ''SMTP_PORT'') ''587'',
                    transport_secure = (getenv w ''SMTP_SECURE'' = Some ''true''),
                    transport_user = str_of user,
                    transport_pass = str_of pass\<rparr>, w))"

definition transport_sendMail :: "env \<Rightarrow> transporter \<Rightarrow> mail \<Rightarrow> unit io" where
  "transport_sendMail E transport mailOptions w =
     (case sendMail E (time w) transport mailOptions of
        None \<Rightarrow> (Inr (), tick w)
      | Some e \<Rightarrow> (Inl e, tick w))"

definition sendBackupEmail :: "env \<Rightarrow> string \<Rightarrow> string \<Rightarrow> string \<Rightarrow> path \<Rightarrow> unit io" where
  "sendBackupEmail E to subject text attachmentPath =
     await createTransporter (\<lambda>transport.
     await (fs_access E attachmentPath) (\<lambda>_.
     (\<lambda>w. let mailOptions =
                 \<lparr>mail_from = getenv w ''SMTP_USER'', mail_to = to, mail_subject = subject,
                  mail_text = text, mail_attachment = attachmentPath\<rparr>
           in try_catch (transport_sendMail E transport mailOptions)
                (\<lambda>error. throw (Error (''Failed to send email: '' @ message error))) w)))"

definition generateBackupEmailContent ::
  "env \<Rightarrow> string \<Rightarrow> string \<Rightarrow> string \<Rightarrow> (string \<times> string) io" where
  "generateBackupEmailContent E databaseName filename fileSize w =
     (let subject = ''Encrypted Database Backup - '' @ databaseName;
          text = join newline
            [''Your encrypted database backup is ready.'',
             '''',
             ''Database: '' @ databaseName,
             ''Filename: '' @ filename,
             ''File Size: '' @ fileSize,
             ''Timestamp: '' @ toISOString E (time w),
             '''',
             ''This backup has been encrypted using post-quantum cryptography.'',
             ''Keep your decryption keys safe - they are required to restore this backup.'',
             '''',
             ''IMPORTANT SECURITY NOTES:'',
             ''- Your encryption keys are NOT stored anywhere'',
             ''- You are solely responsible for keeping your keys safe'',
             ''- Without your keys, this backup cannot be decrypted'',
             ''- Store your keys in a secure location separate from this backup'',
             '''',
             ''To decrypt this backup, you will need:'',
             ''1. Your keys.json file'',
             ''2. The qdb CLI tool'',
             ''3. The command: qdb decrypt --input <encrypted-file> --output <output-file> --keys <keys.json>'']
      in (Inr (subject, text), tick w))"

section \<open>config.js and utils.js: paths\<close>

definition getConfigPath :: "env \<Rightarrow> path" where
  "getConfigPath E =
     path_join (path_join (path_join (homedir E) ''.config'') ''quantum-database-backups'')
       ''config.json''"

definition configExists :: "env \<Rightarrow> bool io" where
  "configExists E =
     try_catch (await (fs_access E (getConfigPath E)) (\<lambda>_. resolve True)) (\<lambda>_. resolve False)"

text \<open>\<open>path.resolve(process.cwd(), relativePath)\<close>, without normalisation.\<close>

definition getAbsolutePath :: "env \<Rightarrow> path \<Rightarrow> path" where
  "getAbsolutePath E relativePath =
     (if startsWith relativePath ''/'' then relativePath else path_join (cwd E) relativePath)"

section \<open>cli.js: the backup command\<close>

text \<open>\<open>if (!process.env.NAME) process.env.NAME = value\<close>\<close>

definition setenv_default :: "string \<Rightarrow> string \<Rightarrow> unit io" where
  "setenv_default name v w =
     (if \<not> truthy_str (getenv w name)
      then (Inr (), w\<lparr>environ := (name, v) # environ w\<rparr>)
      else (Inr (), w))"

text \<open>
  What the command has in hand once the backup is encrypted: the merged configuration,
  the dump file, the archive, the encrypted file and its size.
\<close>

record produced =
  merged :: config
  dumpFile :: path
  zipFile :: path
  encryptedFile :: path
  fileSize :: nat

text \<open>
  The body of the \<open>try\<close> of the command in blocks: up to the call of \<open>createBackup\<close>,
  from its return to the encrypted file and its size, the delivery by mail, and the end.
  Only \<open>createBackup\<close> can take the process down.
\<close>

definition backup_prepare :: "env \<Rightarrow> backup_options \<Rightarrow> (config \<times> jsval) io" where
  "backup_prepare E options =
     await (console_log [glyph_lock_key @ '' Starting quantum database backup...'' @ newline]) (\<lambda>_.
     await (\<lambda>w. (mergeConfig E (time w) options, tick w)) (\<lambda>config.
     if \<not> truthy_str (config_keys config)
     then throw (Error (''Keys path not specified. Run '' @ dquote @ ''qdb init'' @ dquote
            @ '' or use --keys option.''))
     else if \<not> truthy_str (config_email config) \<and> \<not> noEmail options
     then throw (Error (''Email not specified. Run '' @ dquote @ ''qdb init'' @ dquote
            @ '' or use --email option.''))
     else if \<not> truthy_str (config_dbName config)
     then throw (Error (''Database name not specified. Run '' @ dquote @ ''qdb init'' @ dquote
            @ '' or use --db-name option.''))
     else if truthy_str (config_email config) \<and> \<not> noEmail options \<and>
             (\<not> truthy_str (smtp_user (config_smtp config)) \<or>
              \<not> truthy_str (smtp_pass (config_smtp config)))
     then throw (Error (''SMTP not configured. Run '' @ dquote @ ''qdb init'' @ dquote
            @ '' or set SMTP_USER and SMTP_PASS environment variables.''))
     else
     await (console_log [glyph_clipboard @ '' Loading encryption keys...'']) (\<lambda>_.
     let keysPath = getAbsolutePath E (str_of (config_keys config)) in
     await (loadKeys E keysPath) (\<lambda>keys.
     await (console_log [glyph_check @ '' Keys loaded successfully'' @ newline]) (\<lambda>_.
     await (console_log [glyph_disk @ '' Creating database backup...'']) (\<lambda>_.
     resolve (config, keys)))))))"

definition backup_encrypt :: "env \<Rightarrow> config \<Rightarrow> jsval \<Rightarrow> path \<times> path \<Rightarrow> produced io" where
  "backup_encrypt E config keys =
     (\<lambda>(dumpFile, zipFile).
     await (console_log [glyph_check @ '' Database dump created: '' @ basename dumpFile]) (\<lambda>_.
     await (console_log
              [glyph_check @ '' ZIP archive created: '' @ basename zipFile @ newline]) (\<lambda>_.
     await (console_log
              [glyph_lock @ '' Encrypting backup with post-quantum cryptography...'']) (\<lambda>_.
     let encryptedFile = zipFile @ ''.encrypted'' in
     await (encryptBackupFile E zipFile encryptedFile keys) (\<lambda>_.
     await (getFileSize E encryptedFile) (\<lambda>fileSize.
     await (console_log [glyph_check @ '' Backup encrypted: '' @ basename encryptedFile]) (\<lambda>_.
     await (console_log
              [glyph_check @ '' File size: '' @ formatBytes E fileSize @ newline]) (\<lambda>_.
     resolve \<lparr>merged = config, dumpFile = dumpFile, zipFile = zipFile,
              encryptedFile = encryptedFile, fileSize = fileSize\<rparr>))))))))"

definition backup_produce :: "env \<Rightarrow> backup_options \<Rightarrow> produced proc" where
  "backup_produce E options =
     await_proc (settled (backup_prepare E options)) (\<lambda>(config, keys).
     await_proc (createBackup E (str_of (config_dbName config)) (config_workDir config)
                   ''supabase'' []) (\<lambda>files.
     settled (backup_encrypt E config keys files)))"

definition backup_deliver :: "env \<Rightarrow> backup_options \<Rightarrow> produced \<Rightarrow> unit io" where
  "backup_deliver E options b =
     (let config = merged b in
      if truthy_str (config_email config) \<and> \<not> noEmail options
      then
        await (console_log
                 [glyph_mail @ '' Sending encrypted backup to '' @ str_of (config_email config)
                    @ ''...'']) (\<lambda>_.
        await (generateBackupEmailContent E (str_of (config_dbName config))
                 (basename (encryptedFile b)) (formatBytes E (fileSize b))) (\<lambda>(subject, text).
        await (setenv_default ''SMTP_USER'' (str_of (smtp_user (config_smtp config)))) (\<lambda>_.
        await (setenv_default ''SMTP_PASS'' (str_of (smtp_pass (config_smtp config)))) (\<lambda>_.
        await (setenv_default ''SMTP_HOST'' (smtp_host (config_smtp config))) (\<lambda>_.
        await (setenv_default ''SMTP_PORT'' (string_of_int (smtp_port (config_smtp config)))) (\<lambda>_.
        await (setenv_default ''SMTP_SECURE''
                 (if smtp_secure (config_smtp config) then ''true'' else ''false'')) (\<lambda>_.
        await (sendBackupEmail E (str_of (config_email config)) subject text
                 (encryptedFile b)) (\<lambda>_.
        console_log [glyph_check @ '' Email sent successfully'' @ newline]))))))))
      else resolve ())"

definition backup_finish :: "env \<Rightarrow> backup_options \<Rightarrow> produced \<Rightarrow> unit io" where
  "backup_finish E options b =
     await (if \<not> keepFiles options
            then await (console_log [glyph_broom @ '' Cleaning up intermediate files...'']) (\<lambda>_.
                 await (deleteFile E (dumpFile b)) (\<lambda>_.
                 await (deleteFile E (zipFile b)) (\<lambda>_.
                 console_log [glyph_check @ '' Cleanup complete'' @ newline])))
            else resolve ()) (\<lambda>_.
     await (console_log [glyph_done @ '' Backup process completed successfully!'']) (\<lambda>_.
     await (console_log [glyph_package @ '' Encrypted backup: '' @ encryptedFile b]) (\<lambda>_.
     await (if \<not> keepFiles options
            then await (console_log
                          [newline @ glyph_warning @ ''  IMPORTANT: Keep your keys.json file safe!''])
                   (\<lambda>_. console_log [''   Without it, you cannot decrypt this backup.''])
            else resolve ()) (\<lambda>_.
     await (configExists E) (\<lambda>saved.
     if saved
     then console_log [newline @ glyph_folder @ '' Using config from: '' @ getConfigPath E]
     else resolve ())))))"

text \<open>
  The action of the command and the exit status of the process: \<open>process.exit(1)\<close> in
  the \<open>catch\<close>, 0 when the action returns. An uncaught exception ends the process with
  status 1 too; what the runtime prints about it is left out.
\<close>

definition backup_command :: "env \<Rightarrow> backup_options \<Rightarrow> world \<Rightarrow> nat \<times> world" where
  "backup_command E options w =
     (case await_proc (backup_produce E options) (\<lambda>b.
             settled (await (backup_deliver E options b) (\<lambda>_.
                      backup_finish E options b))) w of
        (Settles (Inr u), w') \<Rightarrow> (0, w')
      | (Settles (Inl error), w') \<Rightarrow>
          (1, snd (console_error [newline @ glyph_cross @ '' Error:'', message error] w'))
      | (Dies error, w') \<Rightarrow> (1, w'))"

section \<open>Sample environments\<close>

text \<open>
  An environment in which nothing fails: the tools succeed silently, the dump tool, the
  archiver and the helper write the file they are asked for, \<open>unzip\<close> unpacks one dump
  file, and the keys file holds both keys.
\<close>

definition sample_keys :: jsval where
  "sample_keys = Obj [(''publicKey'', Str ''pk''), (''privateKey'', Str ''sk'')]"

definition add_file :: "path \<Rightarrow> disk \<Rightarrow> disk" where
  "add_file p d = (if (p, File) \<in> set d then d else d @ [(p, File)])"

definition sample_exec :: "nat \<Rightarrow> exec_call \<Rightarrow> disk \<Rightarrow> (js_error + string) \<times> disk" where
  "sample_exec t c d =
     (if startsWith (command c) ''pnpx supabase db dump -f ''
      then (Inr [], add_file (drop 25 (command c)) d)
      else if startsWith (command c) ''unzip -o ''
      then (Inr [], add_file ''restore-temp/extracted/dump.sql'' d)
      else (Inr [], d))"

definition sample_config :: config where
  "sample_config =
     \<lparr>config_email = Some ''ops@example.com'', config_keys = Some ''keys.json'',
      config_dbName = Some ''orders_db'', config_workDir = ''backups'',
      config_smtp = \<lparr>smtp_host = ''smtp.gmail.com'', smtp_port = 587, smtp_secure = False,
               smtp_user = Some ''ops@example.com'', smtp_pass = Some ''secret''\<rparr>\<rparr>"

definition sample_env :: env where
  "sample_env =
     \<lparr>now_at = (\<lambda>t. sample_now),
      fs_fault = (\<lambda>t op. None),
      rm_partial = (\<lambda>t p. False),
      exec_run = sample_exec,
      archive_run = (\<lambda>t src out d. (OutputClosed, add_file out d)),
      encryptFile = (\<lambda>t src out key d. (None, add_file out d)),
      decryptFile = (\<lambda>t src out key d. (None, add_file out d)),
      sendMail = (\<lambda>t tr m. None),
      read_json = (\<lambda>t p. Inr sample_keys),
      size_of = (\<lambda>t p. 2048),
      toISOString = (\<lambda>t. ''2024-01-05T09:03:07.000Z''),
      mergeConfig = (\<lambda>t opts. Inr sample_config),
      formatBytes = (\<lambda>n. ''2 KB''),
      cwd = ''/srv/app'',
      homedir = ''/home/ops''\<rparr>"

definition empty_world :: world where
  "empty_world = \<lparr>nodes = [], time = 0, execd = [], console = [], environ = []\<rparr>"


text \<open>What the specification asks of a keys file: a string under the key.\<close>

definition string_field :: "jsval \<Rightarrow> string \<Rightarrow> bool" where
  "string_field v k =
     (case v of
        Obj kvs \<Rightarrow> (case map_of kvs k of Some (Str s) \<Rightarrow> True | _ \<Rightarrow> False)
      | _ \<Rightarrow> False)"

text \<open>The properties of the configuration that \<open>validateConfig\<close> of a provider reads.\<close>

fun inspected :: "provider \<Rightarrow> string list" where
  "inspected Supabase = []"
| "inspected MongoDB = [''mongodbUri'']"
| "inspected MySQL = [''mysqlUser'', ''mysqlDatabase'']"
| "inspected PostgreSQL = [''postgresUser'', ''postgresDatabase'']"


text \<open>
  The archiver fails after the dump was written; in the second environment the dump
  file, still held open, cannot be unlinked.
\<close>

definition zip_fails :: env where
  "zip_fails =
     sample_env\<lparr>archive_run := (\<lambda>t src out d. (ArchiverError ''write EIO'', add_file out d))\<rparr>"

definition zip_fails_busy :: env where
  "zip_fails_busy = zip_fails\<lparr>fs_fault := (\<lambda>t op.
       if op = Unlink ''backups/supabase-backup-20240105-090307-orders_db.sql''
       then Some (sys_error ''EBUSY'' ''resource busy or locked'' ''unlink''
                    ''backups/supabase-backup-20240105-090307-orders_db.sql'')
       else None)\<rparr>"

text \<open>
  For the restore: a disk that holds the encrypted backup; an environment in which the
  working directory cannot be removed; one in which the removal fails after the
  decrypted archive has been deleted; and one in which the removal fails and the key
  does not fit.
\<close>

definition encrypted_present :: world where
  "encrypted_present = empty_world\<lparr>nodes := [(''orders.zip.encrypted'', File)]\<rparr>"

definition rm_denied :: env where
  "rm_denied = sample_env\<lparr>fs_fault := (\<lambda>t op.
       if op = Rm ''restore-temp''
       then Some (sys_error ''EBUSY'' ''resource busy or locked'' ''rm'' ''restore-temp'')
       else None)\<rparr>"

definition rm_denied_midway :: env where
  "rm_denied_midway =
     rm_denied\<lparr>rm_partial := (\<lambda>t p. p = ''restore-temp/decrypted-backup.zip'')\<rparr>"

definition wrong_key_rm_denied :: env where
  "wrong_key_rm_denied = rm_denied\<lparr>decryptFile := (\<lambda>t src out key d.
       (Some (Error ''authentication tag mismatch''), add_file out d))\<rparr>"

text \<open>An operation that leaves the file system as it is and only adds to the console.\<close>

definition quiet :: "'a io \<Rightarrow> bool" where
  "quiet m \<longleftrightarrow>
     (\<forall>w r w'. m w = (r, w') \<longrightarrow> nodes w' = nodes w \<and> prefix (console w) (console w'))"

text \<open>The mail transport refuses the connection.\<close>

definition mail_down :: env where
  "mail_down = sample_env\<lparr>sendMail := (\<lambda>t tr m. Some (Error ''connect ECONNREFUSED''))\<rparr>"

definition send_and_clean :: backup_options where
  "send_and_clean = \<lparr>noEmail = False, keepFiles = False\<rparr>"

section \<open>Decimal strings\<close>

lemma digit_char_is_digit: "d < 10 \<Longrightarrow> is_digit (digit_char d)"
proof -
  assume "d < 10"
  then have "d \<in> {0, 1, 2, 3, 4, 5, 6, 7, 8, 9}" by auto
  then show ?thesis
    by (auto simp: is_digit_def digit_char_def)
qed

lemma string_of_nat_digits: "list_all is_digit (string_of_nat n)"
proof (induction n rule: string_of_nat.induct)
  case (1 n)
  show ?case
  proof (cases "n < 10")
    case True
    then show ?thesis
      by (subst string_of_nat.simps) (simp add: digit_char_is_digit)
  next
    case False
    with 1 show ?thesis
      by (subst string_of_nat.simps) (simp add: digit_char_is_digit)
  qed
qed

lemma string_of_nat_length1: "n < 10 \<Longrightarrow> length (string_of_nat n) = 1"
  by (subst string_of_nat.simps) simp

lemma string_of_nat_length2: "10 \<le> n \<Longrightarrow> n < 100 \<Longrightarrow> length (string_of_nat n) = 2"
  by (subst string_of_nat.simps) (simp add: string_of_nat_length1)

lemma string_of_nat_length3: "100 \<le> n \<Longrightarrow> n < 1000 \<Longrightarrow> length (string_of_nat n) = 3"
  by (subst string_of_nat.simps) (simp add: string_of_nat_length2)

lemma string_of_nat_length4: "1000 \<le> n \<Longrightarrow> n < 10000 \<Longrightarrow> length (string_of_nat n) = 4"
  by (subst string_of_nat.simps) (simp add: string_of_nat_length3)

lemma pad2_digits: "n < 100 \<Longrightarrow> digits 2 (padStart 2 CHR ''0'' (string_of_nat n))"
proof (cases "n < 10")
  case True
  then show ?thesis
    by (simp add: digits_def padStart_def string_of_nat_length1 string_of_nat_digits is_digit_def)
next
  case False
  assume "n < 100"
  with False show ?thesis
    by (simp add: digits_def padStart_def string_of_nat_length2 string_of_nat_digits)
qed

lemma year_digits:
  "1000 \<le> y \<Longrightarrow> y \<le> 9999 \<Longrightarrow> digits 4 (string_of_int y)"
  by (simp add: digits_def string_of_int_def string_of_nat_length4 string_of_nat_digits)

lemma digits_append: "digits m s \<Longrightarrow> digits n t \<Longrightarrow> digits (m + n) (s @ t)"
  by (simp add: digits_def)

section \<open>File names (claim C8)\<close>

lemma timestamp_shape:
  assumes "calendar_date now"
  shows "\<exists>d8 d6. generateTimestamp now = d8 @ ''-'' @ d6 \<and> digits 8 d8 \<and> digits 6 d6"
proof -
  from assms have y: "digits 4 (string_of_int (getFullYear now))"
    by (simp add: calendar_date_def year_digits)
  from assms have m: "digits 2 (padStart 2 CHR ''0'' (string_of_nat (getMonth now + 1)))"
    by (simp add: calendar_date_def pad2_digits)
  from assms have d: "digits 2 (padStart 2 CHR ''0'' (string_of_nat (getDate now)))"
    by (simp add: calendar_date_def pad2_digits)
  from assms have h: "digits 2 (padStart 2 CHR ''0'' (string_of_nat (getHours now)))"
    by (simp add: calendar_date_def pad2_digits)
  from assms have mi: "digits 2 (padStart 2 CHR ''0'' (string_of_nat (getMinutes now)))"
    by (simp add: calendar_date_def pad2_digits)
  from assms have s: "digits 2 (padStart 2 CHR ''0'' (string_of_nat (getSeconds now)))"
    by (simp add: calendar_date_def pad2_digits)
  have d8: "digits 8 (string_of_int (getFullYear now)
              @ padStart 2 CHR ''0'' (string_of_nat (getMonth now + 1))
              @ padStart 2 CHR ''0'' (string_of_nat (getDate now)))"
    using digits_append [OF y digits_append [OF m d]] by simp
  have d6: "digits 6 (padStart 2 CHR ''0'' (string_of_nat (getHours now))
              @ padStart 2 CHR ''0'' (string_of_nat (getMinutes now))
              @ padStart 2 CHR ''0'' (string_of_nat (getSeconds now)))"
    using digits_append [OF h digits_append [OF mi s]] by simp
  have "generateTimestamp now =
          (string_of_int (getFullYear now)
              @ padStart 2 CHR ''0'' (string_of_nat (getMonth now + 1))
              @ padStart 2 CHR ''0'' (string_of_nat (getDate now)))
          @ ''-'' @
          (padStart 2 CHR ''0'' (string_of_nat (getHours now))
              @ padStart 2 CHR ''0'' (string_of_nat (getMinutes now))
              @ padStart 2 CHR ''0'' (string_of_nat (getSeconds now)))"
    by (simp add: generateTimestamp_def Let_def)
  with d8 d6 show ?thesis by blast
qed

lemma backup_tail_intro:
  assumes "digits 8 d8" and "digits 6 d6"
  shows "backup_tail db ext (''-backup-'' @ d8 @ ''-'' @ d6 @ ''-'' @ db @ ''.'' @ ext)"
  using assms by (simp add: backup_tail_def digits_def)

lemma matches_backup_pattern_intro:
  assumes "digits 8 d8" and "digits 6 d6"
  shows "matches_backup_pattern db ext
           (''supabase-backup-'' @ d8 @ ''-'' @ d6 @ ''-'' @ db @ ''.'' @ ext)"
proof -
  have "backup_tail db ext
          (drop 8 (''supabase-backup-'' @ d8 @ ''-'' @ d6 @ ''-'' @ db @ ''.'' @ ext))"
    using backup_tail_intro [OF assms, of db ext] by simp
  moreover have "8 \<in> set [0..<Suc (length
      (''supabase-backup-'' @ d8 @ ''-'' @ d6 @ ''-'' @ db @ ''.'' @ ext))]"
    unfolding set_upt atLeastLessThan_iff by simp
  ultimately show ?thesis
    unfolding matches_backup_pattern_def list_ex_iff by blast
qed

lemma generateBackupFilename_matches:
  assumes "calendar_date now"
  shows "matches_backup_pattern db ext (generateBackupFilename now db ext)"
proof -
  from timestamp_shape [OF assms] obtain d8 d6
    where ts: "generateTimestamp now = d8 @ ''-'' @ d6" and "digits 8 d8" and "digits 6 d6"
    by blast
  then show ?thesis
    using matches_backup_pattern_intro [of d8 d6 db ext]
    by (simp add: generateBackupFilename_def)
qed

text \<open>
  Claim C8. Whenever the clock reads a calendar date with a year of four digits,
  \<open>generateBackupFilename("orders_db", "sql")\<close> matches
  \<open>*-backup-<8 digits>-<6 digits>-orders_db.sql\<close>, and with the extension \<open>zip\<close>
  the name has the same prefix and the same timestamp format and ends in \<open>.zip\<close>.
\<close>

theorem generateBackupFilename_orders_db:
  assumes "calendar_date now"
  shows "matches_backup_pattern ''orders_db'' ''sql''
           (generateBackupFilename now ''orders_db'' ''sql'') \<and>
         matches_backup_pattern ''orders_db'' ''zip''
           (generateBackupFilename now ''orders_db'' ''zip'') \<and>
         generateBackupFilename now ''orders_db'' ''sql'' =
           ''supabase-backup-'' @ generateTimestamp now @ ''-orders_db'' @ ''.sql'' \<and>
         generateBackupFilename now ''orders_db'' ''zip'' =
           ''supabase-backup-'' @ generateTimestamp now @ ''-orders_db'' @ ''.zip''"
  using generateBackupFilename_matches [OF assms, of "''orders_db''" "''sql''"]
    generateBackupFilename_matches [OF assms, of "''orders_db''" "''zip''"]
  by (simp add: generateBackupFilename_def)

theorem generateBackupFilename_orders_db_witness:
  "calendar_date sample_now \<and>
   generateBackupFilename sample_now ''orders_db'' ''sql'' =
     ''supabase-backup-20240105-090307-orders_db.sql'' \<and>
   generateBackupFilename sample_now ''orders_db'' ''zip'' =
     ''supabase-backup-20240105-090307-orders_db.zip'' \<and>
   matches_backup_pattern ''orders_db'' ''sql'' ''supabase-backup-20240105-090307-orders_db.sql'' \<and>
   matches_backup_pattern ''orders_db'' ''zip'' ''supabase-backup-20240105-090307-orders_db.zip''"
proof -
  have c: "calendar_date sample_now"
    by (simp add: calendar_date_def sample_now_def)
  have s: "generateBackupFilename sample_now ''orders_db'' ''sql'' =
     ''supabase-backup-20240105-090307-orders_db.sql''"
    by code_simp
  have z: "generateBackupFilename sample_now ''orders_db'' ''zip'' =
     ''supabase-backup-20240105-090307-orders_db.zip''"
    by code_simp
  show ?thesis
    using c s z generateBackupFilename_orders_db [OF c, unfolded s z] by blast
qed
section \<open>Providers (claims C7, C5 and C3)\<close>

lemmas io_defs = resolve_def throw_def await_def try_catch_def try_finally_def lift_def

text \<open>
  Claim C7. For each provider, \<open>isAvailable()\<close> never throws: it resolves with
  \<open>true\<close> when the version probe of the provider's tool succeeds and with \<open>false\<close>
  when the probe fails in any way. The probe is the one command it runs.
\<close>

theorem isAvailable_total:
  "fst (isAvailable E p w) =
     Inr (\<not> isl (fst (exec_run E (time w) (sh (version_probe p)) (nodes w)))) \<and>
   execd (snd (isAvailable E p w)) = execd w @ [sh (version_probe p)]"
proof -
  obtain r d where x: "exec_run E (time w) (sh (version_probe p)) (nodes w) = (r, d)"
    by (cases "exec_run E (time w) (sh (version_probe p)) (nodes w)")
  show ?thesis
    using x by (cases p; cases r) (simp_all add: io_defs execAsync_def tick_def)
qed

theorem isAvailable_total_witness:
  "fst (isAvailable sample_env Supabase empty_world) = Inr True \<and>
   fst (isAvailable (sample_env\<lparr>exec_run := (\<lambda>t c d. (Inl (Error ''mongodump: not found''), d))\<rparr>)
          MongoDB empty_world) = Inr False"
  using isAvailable_total [of sample_env Supabase empty_world]
    isAvailable_total [of "sample_env\<lparr>exec_run := (\<lambda>t c d. (Inl (Error ''mongodump: not found''), d))\<rparr>"
       MongoDB empty_world]
  by (simp add: sample_env_def sample_exec_def startsWith_def sh_def)

text \<open>
  Claim C5. \<open>createDump\<close> and \<open>restoreFromDump\<close> of MySQL called with options that
  lack \<open>user\<close> or \<open>database\<close>, and those of MongoDB called with options that lack
  \<open>uri\<close>, reject at once with an error that names the requirement; the state of the
  process is untouched, so no external tool has been run.
\<close>

theorem missing_options_fail_fast:
  "(\<not> truthy (get_prop options ''user'') \<or> \<not> truthy (get_prop options ''database'') \<longrightarrow>
      createDump E MySQL outputPath options w =
        (Inl (Error ''MySQL dump failed: MySQL user and database are required''), w) \<and>
      restoreFromDump E MySQL dumpPath options w =
        (Inl (Error ''MySQL restore failed: MySQL user and database are required for restore''), w)) \<and>
   (\<not> truthy (get_prop options ''uri'') \<longrightarrow>
      createDump E MongoDB outputPath options w =
        (Inl (Error ''MongoDB dump failed: MongoDB URI is required''), w) \<and>
      restoreFromDump E MongoDB dumpPath options w =
        (Inl (Error ''MongoDB restore failed: MongoDB URI is required for restore''), w))"
  by (simp add: io_defs Let_def Error_def)

theorem missing_options_fail_fast_witness:
  "\<not> truthy (get_prop [(''user'', Str ''root'')] ''database'') \<and>
   \<not> truthy (get_prop [(''user'', Str ''root'')] ''uri'') \<and>
   createDump sample_env MySQL ''out.sql'' [(''user'', Str ''root'')] empty_world =
     (Inl (Error ''MySQL dump failed: MySQL user and database are required''), empty_world) \<and>
   createDump sample_env MongoDB ''out.archive'' [(''user'', Str ''root'')] empty_world =
     (Inl (Error ''MongoDB dump failed: MongoDB URI is required''), empty_world) \<and>
   execd empty_world = []"
  using missing_options_fail_fast [of "[(''user'', Str ''root'')]" sample_env "''out.sql''" empty_world]
    missing_options_fail_fast [of "[(''user'', Str ''root'')]" sample_env "''out.archive''" empty_world]
  by (simp add: get_prop_def empty_world_def)

text \<open>
  Claim C3, as stated, fails for MongoDB: a configuration with no URI at all, under
  either name, is valid.
\<close>

theorem validateConfig_mongodb_counterexample:
  "get_prop [] ''uri'' = Undefined \<and> get_prop [] ''mongodbUri'' = Undefined \<and>
   validateConfig MongoDB [] = Inr \<lparr>valid = True, errors = []\<rparr>"
  by (simp add: get_prop_def validation_of_def)

text \<open>
  Claim C3, amended. \<open>validateConfig\<close> of Supabase accepts every configuration. That of
  MySQL (of PostgreSQL) returns \<open>valid: true\<close> with no errors when \<open>mysqlUser\<close> and
  \<open>mysqlDatabase\<close> (\<open>postgresUser\<close> and \<open>postgresDatabase\<close>) are both truthy, and
  \<open>valid: false\<close> with a non-empty list of errors otherwise. That of MongoDB accepts a
  configuration without \<open>mongodbUri\<close>, and judges a non-empty string \<open>mongodbUri\<close>
  by its prefix \<open>mongodb://\<close>. No other property of the configuration matters.
\<close>

theorem validateConfig_by_provider:
  "validateConfig Supabase c = Inr \<lparr>valid = True, errors = []\<rparr> \<and>
   (\<exists>v. validateConfig MySQL c = Inr v \<and>
        valid v = (truthy (get_prop c ''mysqlUser'') \<and> truthy (get_prop c ''mysqlDatabase'')) \<and>
        (errors v = []) = valid v) \<and>
   (\<exists>v. validateConfig PostgreSQL c = Inr v \<and>
        valid v = (truthy (get_prop c ''postgresUser'') \<and>
                   truthy (get_prop c ''postgresDatabase'')) \<and>
        (errors v = []) = valid v) \<and>
   (\<not> truthy (get_prop c ''mongodbUri'') \<longrightarrow>
      validateConfig MongoDB c = Inr \<lparr>valid = True, errors = []\<rparr>) \<and>
   (\<forall>s. get_prop c ''mongodbUri'' = Str s \<and> s \<noteq> [] \<longrightarrow>
      validateConfig MongoDB c =
        Inr \<lparr>valid = startsWith s ''mongodb://'',
             errors = (if startsWith s ''mongodb://'' then []
                       else [''MongoDB URI must start with mongodb://''])\<rparr>) \<and>
   ((\<forall>k \<in> set (inspected p). get_prop c k = get_prop c' k) \<longrightarrow>
      validateConfig p c = validateConfig p c')"
proof -
  have ext: "(\<forall>k \<in> set (inspected p). get_prop c k = get_prop c' k) \<longrightarrow>
      validateConfig p c = validateConfig p c'"
    by (cases p) (simp_all add: Let_def)
  show ?thesis
    using ext by (simp add: validation_of_def Let_def)
qed

theorem validateConfig_by_provider_witness:
  "validateConfig MySQL [(''mysqlUser'', Str ''root''), (''comment'', Str ''x'')] =
     Inr \<lparr>valid = False, errors = [''MySQL database is required'']\<rparr> \<and>
   validateConfig MySQL [(''mysqlUser'', Str ''root''), (''mysqlDatabase'', Str ''shop'')] =
     Inr \<lparr>valid = True, errors = []\<rparr> \<and>
   \<not> truthy (get_prop [(''comment'', Str ''x'')] ''mongodbUri'') \<and>
   validateConfig MongoDB [(''comment'', Str ''x'')] = Inr \<lparr>valid = True, errors = []\<rparr> \<and>
   validateConfig MongoDB [(''mongodbUri'', Str ''http://db'')] =
     Inr \<lparr>valid = False, errors = [''MongoDB URI must start with mongodb://'']\<rparr> \<and>
   get_prop [(''mysqlUser'', Str ''root'')] ''mysqlUser'' =
     get_prop [(''mysqlUser'', Str ''root''), (''comment'', Str ''x'')] ''mysqlUser'' \<and>
   get_prop [(''mysqlUser'', Str ''root'')] ''mysqlDatabase'' =
     get_prop [(''mysqlUser'', Str ''root''), (''comment'', Str ''x'')] ''mysqlDatabase'' \<and>
   validateConfig MySQL [(''mysqlUser'', Str ''root'')] =
     validateConfig MySQL [(''mysqlUser'', Str ''root''), (''comment'', Str ''x'')]"
  using validateConfig_by_provider
          [of "[(''comment'', Str ''x'')]" MySQL "[(''comment'', Str ''x'')]"]
        validateConfig_by_provider
          [of "[(''mongodbUri'', Str ''http://db'')]" MySQL "[(''mongodbUri'', Str ''http://db'')]"]
        validateConfig_by_provider
          [of "[(''mysqlUser'', Str ''root'')]" MySQL
              "[(''mysqlUser'', Str ''root''), (''comment'', Str ''x'')]"]
  by (simp add: get_prop_def validation_of_def startsWith_def)

section \<open>The keys file (claim C6)\<close>

text \<open>
  Claim C6, as stated, fails: a keys file whose two fields are a number and \<open>null\<close>
  is accepted, although neither is a string; and a keys file that holds the JSON value
  \<open>null\<close> is rejected by the \<open>TypeError\<close> of the \<open>in\<close> operator, which does not name
  \<open>privateKey\<close>.
\<close>

theorem loadKeys_accepts_any_values_counterexample:
  "loadKeys (sample_env\<lparr>read_json := (\<lambda>t p. Inr (Obj [(''publicKey'', Num 1), (''privateKey'', Null)]))\<rparr>)
      ''keys.json'' empty_world =
     (Inr (Obj [(''publicKey'', Num 1), (''privateKey'', Null)]), tick empty_world) \<and>
   \<not> string_field (Obj [(''publicKey'', Num 1), (''privateKey'', Null)]) ''publicKey'' \<and>
   \<not> string_field (Obj [(''publicKey'', Num 1), (''privateKey'', Null)]) ''privateKey'' \<and>
   loadKeys (sample_env\<lparr>read_json := (\<lambda>t p. Inr Null)\<rparr>) ''keys.json'' empty_world =
     (Inl (TypeError (''Cannot use 'in' operator to search for '' @ [CHR 0x27] @ ''publicKey''
             @ [CHR 0x27] @ '' in null'')), tick empty_world)"
  by (simp add: loadKeys_def readJsonFile_def io_defs validateRequiredKeys_def key_in_def
      string_field_def)

text \<open>
  Claim C6, amended. For every keys file whose content is a JSON object: \<open>loadKeys\<close>
  returns the object when the keys \<open>publicKey\<close> and \<open>privateKey\<close> are both present,
  whatever their values; when either is absent it fails with
  \<open>Missing required keys:\<close> followed by every missing key.
\<close>

theorem loadKeys_object:
  assumes "read_json E (time w) keysPath = Inr (Obj kvs)"
  shows "(''publicKey'' \<in> set (map fst kvs) \<and> ''privateKey'' \<in> set (map fst kvs) \<longrightarrow>
            loadKeys E keysPath w = (Inr (Obj kvs), tick w)) \<and>
         (''publicKey'' \<notin> set (map fst kvs) \<or> ''privateKey'' \<notin> set (map fst kvs) \<longrightarrow>
            loadKeys E keysPath w =
              (Inl (Error (''Missing required keys: '' @
                 join '', '' (filter (\<lambda>k. k \<notin> set (map fst kvs)) [''publicKey'', ''privateKey'']))),
               tick w))"
  using assms
  by (auto simp: loadKeys_def readJsonFile_def io_defs validateRequiredKeys_def key_in_def)

theorem loadKeys_object_witness:
  "loadKeys (sample_env\<lparr>read_json := (\<lambda>t p. Inr (Obj [(''publicKey'', Str ''pk'')]))\<rparr>)
      ''keys.json'' empty_world =
     (Inl (Error ''Missing required keys: privateKey''), tick empty_world) \<and>
   loadKeys (sample_env\<lparr>read_json := (\<lambda>t p. Inr (Obj [(''note'', Str ''n'')]))\<rparr>)
      ''keys.json'' empty_world =
     (Inl (Error ''Missing required keys: publicKey, privateKey''), tick empty_world) \<and>
   loadKeys sample_env ''keys.json'' empty_world = (Inr sample_keys, tick empty_world)"
  using loadKeys_object [of "sample_env\<lparr>read_json := (\<lambda>t p. Inr (Obj [(''publicKey'', Str ''pk'')]))\<rparr>"
           empty_world "''keys.json''" "[(''publicKey'', Str ''pk'')]"]
        loadKeys_object [of "sample_env\<lparr>read_json := (\<lambda>t p. Inr (Obj [(''note'', Str ''n'')]))\<rparr>"
           empty_world "''keys.json''" "[(''note'', Str ''n'')]"]
        loadKeys_object [of sample_env empty_world "''keys.json''"
           "[(''publicKey'', Str ''pk''), (''privateKey'', Str ''sk'')]"]
  by (simp add: sample_env_def sample_keys_def)

section \<open>Deleting files (claim C10)\<close>

lemma code_ENOENT [simp]: "code (ENOENT syscall p) = Some ''ENOENT''"
  by (simp add: ENOENT_def sys_error_def)

lemma code_ENOTDIR [simp]: "code (ENOTDIR syscall p) = Some ''ENOTDIR''"
  by (simp add: ENOTDIR_def sys_error_def)

lemma code_sys_error [simp]: "code (sys_error c what syscall p) = Some c"
  by (simp add: sys_error_def)

lemma below_file_tick [simp]: "below_file (tick w) p = below_file w p"
  by (simp add: below_file_def is_file_def tick_def list_ex_iff)

lemma below_file_time [simp]: "below_file (w\<lparr>time := t\<rparr>) p = below_file w p"
  by (simp add: below_file_def is_file_def list_ex_iff)













section \<open>The backup pipeline (claim C1)\<close>

text \<open>One \<open>unlink\<close> whose error is swallowed.\<close>

lemma unlink_swallowed:
  "\<exists>w'. try_catch (fs_unlink E p) (\<lambda>_. resolve ()) w = (Inr (), w') \<and>
        time w' = Suc (time w) \<and> execd w' = execd w \<and> console w' = console w \<and>
        environ w' = environ w \<and>
        set (nodes w') \<subseteq> set (nodes w) \<and>
        (\<forall>q. q \<noteq> p \<longrightarrow> is_file w' q = is_file w q \<and> is_dir w' q = is_dir w q) \<and>
        (is_dir w' p = is_dir w p \<or> \<not> exists_path w' p) \<and>
        (fs_fault E (time w) (Unlink p) = None \<and> \<not> is_dir w p \<and> \<not> below_file w p
           \<longrightarrow> \<not> exists_path w' p)"
  by (cases "fs_fault E (time w) (Unlink p)")
     (auto simp: try_catch_def resolve_def fs_unlink_def fs_call_def tick_def
        exists_path_def is_file_def is_dir_def)

lemma below_file_mono:
  assumes "set (nodes w') \<subseteq> set (nodes w)" and "\<not> below_file w p"
  shows "\<not> below_file w' p"
  using assms by (auto simp: below_file_def is_file_def list_ex_iff)

lemma backup_cleanup_effect:
  "\<exists>w'. backup_cleanup E dumpPath zipPath w = (Inr (), w') \<and>
        time w' = Suc (Suc (time w)) \<and> execd w' = execd w \<and> console w' = console w \<and>
        set (nodes w') \<subseteq> set (nodes w) \<and>
        (fs_fault E (time w) (Unlink dumpPath) = None \<and> \<not> is_dir w dumpPath \<and>
         \<not> below_file w dumpPath
           \<longrightarrow> \<not> exists_path w' dumpPath) \<and>
        (fs_fault E (Suc (time w)) (Unlink zipPath) = None \<and> \<not> is_dir w zipPath \<and>
         \<not> below_file w zipPath
           \<longrightarrow> \<not> exists_path w' zipPath)"
proof -
  obtain w1 where 1: "try_catch (fs_unlink E dumpPath) (\<lambda>_. resolve ()) w = (Inr (), w1)"
    and t1: "time w1 = Suc (time w)" and x1: "execd w1 = execd w" and c1: "console w1 = console w"
    and n1: "set (nodes w1) \<subseteq> set (nodes w)"
    and o1: "\<forall>q. q \<noteq> dumpPath \<longrightarrow> is_file w1 q = is_file w q \<and> is_dir w1 q = is_dir w q"
    and k1: "is_dir w1 dumpPath = is_dir w dumpPath \<or> \<not> exists_path w1 dumpPath"
    and d1: "fs_fault E (time w) (Unlink dumpPath) = None \<and> \<not> is_dir w dumpPath \<and>
             \<not> below_file w dumpPath
               \<longrightarrow> \<not> exists_path w1 dumpPath"
    using unlink_swallowed [of E dumpPath w] by blast
  obtain w2 where 2: "try_catch (fs_unlink E zipPath) (\<lambda>_. resolve ()) w1 = (Inr (), w2)"
    and t2: "time w2 = Suc (time w1)" and x2: "execd w2 = execd w1" and c2: "console w2 = console w1"
    and n2: "set (nodes w2) \<subseteq> set (nodes w1)"
    and o2: "\<forall>q. q \<noteq> zipPath \<longrightarrow> is_file w2 q = is_file w1 q \<and> is_dir w2 q = is_dir w1 q"
    and k2: "is_dir w2 zipPath = is_dir w1 zipPath \<or> \<not> exists_path w2 zipPath"
    and d2: "fs_fault E (time w1) (Unlink zipPath) = None \<and> \<not> is_dir w1 zipPath \<and>
             \<not> below_file w1 zipPath
               \<longrightarrow> \<not> exists_path w2 zipPath"
    using unlink_swallowed [of E zipPath w1] by blast
  define u1 where "u1 = try_catch (fs_unlink E dumpPath) (\<lambda>_. resolve ())"
  define u2 where "u2 = try_catch (fs_unlink E zipPath) (\<lambda>_. resolve ())"
  have shape: "backup_cleanup E dumpPath zipPath =
                 try_catch (await u1 (\<lambda>_. u2)) (\<lambda>_. resolve ())"
    by (simp add: backup_cleanup_def u1_def u2_def)
  have run: "backup_cleanup E dumpPath zipPath w = (Inr (), w2)"
    using 1 2 unfolding shape u1_def [symmetric] u2_def [symmetric]
    by (simp add: try_catch_def await_def)
  have sub: "\<not> exists_path w1 q \<Longrightarrow> \<not> exists_path w2 q" for q
    using n2 by (auto simp: exists_path_def is_file_def is_dir_def)
  have dz: "\<not> is_dir w zipPath \<Longrightarrow> \<not> is_dir w1 zipPath"
    using n1 by (auto simp: is_dir_def)
  have bz: "\<not> below_file w zipPath \<Longrightarrow> \<not> below_file w1 zipPath"
    using n1 by (rule below_file_mono)
  show ?thesis
    using run t1 t2 x1 x2 c1 c2 n1 n2 d1 d2 sub dz bz by auto
qed

lemma await_proc_Inl_iff:
  "await_proc m f w = (Settles (Inl e), w2) \<longleftrightarrow>
     m w = (Settles (Inl e), w2) \<or>
     (\<exists>x w'. m w = (Settles (Inr x), w') \<and> f x w' = (Settles (Inl e), w2))"
  by (auto simp: await_proc_def split: prod.splits fate.splits sum.splits)

lemma settled_iff: "settled m w = (Settles r, w') \<longleftrightarrow> m w = (r, w')"
  by (auto simp: settled_def split: prod.splits)

lemma console_log_snd:
  "console_log args w = (r, w') \<longleftrightarrow> r = Inr () \<and> w' = snd (console_log args w)"
  by (auto simp: console_log_def)

lemma createZipArchive_Inl_iff:
  "createZipArchive E sourceFile outputZip w = (Settles (Inl e), w2) \<longleftrightarrow>
     (\<exists>msg d. archive_run E (time w) sourceFile outputZip (nodes w) = (ArchiverError msg, d) \<and>
              e = Error (''ZIP creation failed: '' @ msg) \<and> w2 = (tick w)\<lparr>nodes := d\<rparr>)"
  by (auto simp: createZipArchive_def split: prod.splits archive_event.splits)

text \<open>
  When the body of the \<open>try\<close> rejects, it is with the error of the dump stage, or with
  the error made from an \<open>error\<close> event of the archiver.
\<close>

lemma backup_stages_rejects:
  assumes "backup_stages E provider workDir dumpFilename zipFilename providerName
             providerOptions w1 = (Settles (Inl e), w2)"
  shows "(\<exists>wa. dumpDatabase E (path_join workDir dumpFilename) providerName providerOptions wa =
                 (Inl e, w2)) \<or>
         (\<exists>wc msg d. archive_run E (time wc) (path_join workDir dumpFilename)
                        (path_join workDir zipFilename) (nodes wc) = (ArchiverError msg, d) \<and>
                      e = Error (''ZIP creation failed: '' @ msg) \<and>
                      w2 = (tick wc)\<lparr>nodes := d\<rparr>)"
  using assms
  unfolding backup_stages_def Let_def
  apply (simp only: await_proc_Inl_iff settled_iff createZipArchive_Inl_iff console_log_snd)
  apply (simp add: resolve_def)
  apply (elim disjE exE conjE)
   apply blast
  apply (rule disjI2)
  apply blast
  done

text \<open>
  An error of the output stream has no listener: the promise of \<open>createZipArchive\<close>
  never settles, the \<open>catch\<close> of \<open>createBackup\<close> does not run, and nothing is deleted.
\<close>

lemma createBackup_dies:
  assumes "backup_setup E dbName workDir providerName w =
             (Inr (provider, dumpFilename, zipFilename), w1)"
    and "backup_stages E provider workDir dumpFilename zipFilename providerName
           providerOptions w1 = (Dies e, w2)"
  shows "createBackup E dbName workDir providerName providerOptions w = (Dies e, w2)"
  using assms
  by (simp add: createBackup_def await_proc_def settled_def try_catch_proc_def)

text \<open>
  Claim C1, amended. Whenever the body of the \<open>try\<close> of \<open>createBackup\<close> rejects, which
  it does when the dump stage fails and when the archiver reports an error,
  \<open>createBackup\<close> rejects with that error after two attempts to unlink, one for the
  dump file and one for the zip file, whose errors are swallowed. The clean-up runs no
  tool and creates nothing. Each of the two paths whose unlink the environment does not
  fail, and which is neither a directory nor below a regular file, is absent
  afterwards; a file whose deletion failed may remain.
\<close>

theorem createBackup_failure_cleanup:
  assumes pre: "backup_setup E dbName workDir providerName w =
                    (Inr (provider, dumpFilename, zipFilename), w1)"
    and stage: "backup_stages E provider workDir dumpFilename zipFilename providerName
                  providerOptions w1 = (Settles (Inl e), w2)"
  shows "\<exists>w'. createBackup E dbName workDir providerName providerOptions w =
                 (Settles (Inl e), w') \<and>
           time w' = Suc (Suc (time w2)) \<and> execd w' = execd w2 \<and>
           set (nodes w') \<subseteq> set (nodes w2) \<and>
           (fs_fault E (time w2) (Unlink (path_join workDir dumpFilename)) = None \<and>
            \<not> is_dir w2 (path_join workDir dumpFilename) \<and>
            \<not> below_file w2 (path_join workDir dumpFilename)
              \<longrightarrow> \<not> exists_path w' (path_join workDir dumpFilename)) \<and>
           (fs_fault E (Suc (time w2)) (Unlink (path_join workDir zipFilename)) = None \<and>
            \<not> is_dir w2 (path_join workDir zipFilename) \<and>
            \<not> below_file w2 (path_join workDir zipFilename)
              \<longrightarrow> \<not> exists_path w' (path_join workDir zipFilename))"
proof -
  obtain w' where c: "backup_cleanup E (path_join workDir dumpFilename)
                        (path_join workDir zipFilename) w2 = (Inr (), w')"
    and rest: "time w' = Suc (Suc (time w2))" "execd w' = execd w2"
      "set (nodes w') \<subseteq> set (nodes w2)"
      "fs_fault E (time w2) (Unlink (path_join workDir dumpFilename)) = None \<and>
            \<not> is_dir w2 (path_join workDir dumpFilename) \<and>
            \<not> below_file w2 (path_join workDir dumpFilename)
              \<longrightarrow> \<not> exists_path w' (path_join workDir dumpFilename)"
      "fs_fault E (Suc (time w2)) (Unlink (path_join workDir zipFilename)) = None \<and>
            \<not> is_dir w2 (path_join workDir zipFilename) \<and>
            \<not> below_file w2 (path_join workDir zipFilename)
              \<longrightarrow> \<not> exists_path w' (path_join workDir zipFilename)"
    using backup_cleanup_effect
      [of E "path_join workDir dumpFilename" "path_join workDir zipFilename" w2]
    by blast
  have "createBackup E dbName workDir providerName providerOptions w = (Settles (Inl e), w')"
    by (simp add: createBackup_def await_proc_def settled_def try_catch_proc_def pre stage
          await_def c throw_def)
  with rest show ?thesis by blast
qed


text \<open>
  Claim C1, as stated, fails: the archive stage fails, the unlink of the dump file
  fails with \<open>EBUSY\<close>, the error is swallowed, and the dump file is still in the
  working directory when \<open>createBackup\<close> rejects.
\<close>

theorem createBackup_leftover_counterexample:
  "fst (createBackup zip_fails_busy ''orders_db'' ''backups'' ''supabase'' [] empty_world) =
     Settles (Inl (Error ''ZIP creation failed: write EIO'')) \<and>
   is_file (snd (createBackup zip_fails_busy ''orders_db'' ''backups'' ''supabase'' [] empty_world))
     ''backups/supabase-backup-20240105-090307-orders_db.sql''"
proof -
  have "case createBackup zip_fails_busy ''orders_db'' ''backups'' ''supabase'' [] empty_world of
          (r, w) \<Rightarrow>
            r = Settles (Inl (Error ''ZIP creation failed: write EIO'')) \<and>
            is_file w ''backups/supabase-backup-20240105-090307-orders_db.sql''"
    by code_simp
  then show ?thesis
    by (simp only: case_prod_unfold)
qed

theorem createBackup_failure_cleanup_witness:
  "fst (createBackup zip_fails ''orders_db'' ''backups'' ''supabase'' [] empty_world) =
     Settles (Inl (Error ''ZIP creation failed: write EIO'')) \<and>
   \<not> exists_path (snd (createBackup zip_fails ''orders_db'' ''backups'' ''supabase'' [] empty_world))
     ''backups/supabase-backup-20240105-090307-orders_db.sql'' \<and>
   \<not> exists_path (snd (createBackup zip_fails ''orders_db'' ''backups'' ''supabase'' [] empty_world))
     ''backups/supabase-backup-20240105-090307-orders_db.zip''"
proof -
  define w1 where "w1 = snd (backup_setup zip_fails ''orders_db'' ''backups'' ''supabase'' empty_world)"
  define w2 where "w2 = snd (backup_stages zip_fails Supabase ''backups''
     ''supabase-backup-20240105-090307-orders_db.sql''
     ''supabase-backup-20240105-090307-orders_db.zip'' ''supabase'' [] w1)"
  have "fst (backup_setup zip_fails ''orders_db'' ''backups'' ''supabase'' empty_world) =
      Inr (Supabase, ''supabase-backup-20240105-090307-orders_db.sql'',
        ''supabase-backup-20240105-090307-orders_db.zip'')"
    by code_simp
  then have pre: "backup_setup zip_fails ''orders_db'' ''backups'' ''supabase'' empty_world =
      (Inr (Supabase, ''supabase-backup-20240105-090307-orders_db.sql'',
        ''supabase-backup-20240105-090307-orders_db.zip''), w1)"
    unfolding w1_def by (metis prod.collapse)
  have "case backup_stages zip_fails Supabase ''backups''
     ''supabase-backup-20240105-090307-orders_db.sql''
     ''supabase-backup-20240105-090307-orders_db.zip'' ''supabase'' [] w1 of
       (r, w) \<Rightarrow>
         r = Settles (Inl (Error ''ZIP creation failed: write EIO'')) \<and>
         (\<not> is_dir w (path_join ''backups'' ''supabase-backup-20240105-090307-orders_db.sql'') \<and>
          \<not> is_dir w (path_join ''backups'' ''supabase-backup-20240105-090307-orders_db.zip'')) \<and>
         (\<not> below_file w (path_join ''backups'' ''supabase-backup-20240105-090307-orders_db.sql'') \<and>
          \<not> below_file w (path_join ''backups'' ''supabase-backup-20240105-090307-orders_db.zip''))"
    unfolding w1_def by code_simp
  then have both: "fst (backup_stages zip_fails Supabase ''backups''
     ''supabase-backup-20240105-090307-orders_db.sql''
     ''supabase-backup-20240105-090307-orders_db.zip'' ''supabase'' [] w1) =
       Settles (Inl (Error ''ZIP creation failed: write EIO'')) \<and>
     (\<not> is_dir w2 (path_join ''backups'' ''supabase-backup-20240105-090307-orders_db.sql'') \<and>
      \<not> is_dir w2 (path_join ''backups'' ''supabase-backup-20240105-090307-orders_db.zip'')) \<and>
     (\<not> below_file w2 (path_join ''backups'' ''supabase-backup-20240105-090307-orders_db.sql'') \<and>
      \<not> below_file w2 (path_join ''backups'' ''supabase-backup-20240105-090307-orders_db.zip''))"
    unfolding w2_def case_prod_unfold .
  from both have staged: "fst (backup_stages zip_fails Supabase ''backups''
     ''supabase-backup-20240105-090307-orders_db.sql''
     ''supabase-backup-20240105-090307-orders_db.zip'' ''supabase'' [] w1) =
       Settles (Inl (Error ''ZIP creation failed: write EIO''))"
    by (rule conjunct1)
  from both [THEN conjunct2, THEN conjunct1] have nd:
    "\<not> is_dir w2 (path_join ''backups'' ''supabase-backup-20240105-090307-orders_db.sql'')"
    "\<not> is_dir w2 (path_join ''backups'' ''supabase-backup-20240105-090307-orders_db.zip'')"
    by blast+
  from both [THEN conjunct2, THEN conjunct2] have nb:
    "\<not> below_file w2 (path_join ''backups'' ''supabase-backup-20240105-090307-orders_db.sql'')"
    "\<not> below_file w2 (path_join ''backups'' ''supabase-backup-20240105-090307-orders_db.zip'')"
    by blast+
  from staged have stage: "backup_stages zip_fails Supabase ''backups''
     ''supabase-backup-20240105-090307-orders_db.sql''
     ''supabase-backup-20240105-090307-orders_db.zip'' ''supabase'' [] w1 =
       (Settles (Inl (Error ''ZIP creation failed: write EIO'')), w2)"
    unfolding w2_def by (metis prod.collapse)
  have nofault: "fs_fault zip_fails t op = None" for t op
    by (simp add: zip_fails_def sample_env_def)
  have pj: "path_join ''backups'' ''supabase-backup-20240105-090307-orders_db.sql'' =
      ''backups/supabase-backup-20240105-090307-orders_db.sql''"
    "path_join ''backups'' ''supabase-backup-20240105-090307-orders_db.zip'' =
      ''backups/supabase-backup-20240105-090307-orders_db.zip''"
    by (simp_all add: path_join_def)
  from createBackup_failure_cleanup [OF pre stage] nofault nd nb
  obtain w' where "createBackup zip_fails ''orders_db'' ''backups'' ''supabase'' [] empty_world =
      (Settles (Inl (Error ''ZIP creation failed: write EIO'')), w')"
    and "\<not> exists_path w' (path_join ''backups'' ''supabase-backup-20240105-090307-orders_db.sql'')"
    and "\<not> exists_path w' (path_join ''backups'' ''supabase-backup-20240105-090307-orders_db.zip'')"
    by blast
  then show ?thesis
    by (simp add: pj)
qed
section \<open>The restore pipeline (claims C2 and C9)\<close>

lemma await_Inr_iff:
  "await m f w = (Inr y, w') \<longleftrightarrow> (\<exists>x w0. m w = (Inr x, w0) \<and> f x w0 = (Inr y, w'))"
  by (cases "m w"; cases "fst (m w)") (auto simp: await_def)

lemma try_rethrow_Inr_iff:
  "try_catch m (\<lambda>error. throw (g error)) w = (Inr y, w') \<longleftrightarrow> m w = (Inr y, w')"
  by (cases "m w"; cases "fst (m w)") (auto simp: try_catch_def throw_def)

lemma console_log_run: "console_log args w = (r, w') \<longleftrightarrow> r = Inr () \<and> w' = w\<lparr>console := console w @ [(Stdout, join '' '' args)]\<rparr>"
  by (auto simp: console_log_def)

lemma within_join_join: "within d (path_join (path_join d sub) name)"
  by (simp add: within_def path_join_def startsWith_def)

lemma restore_cleanup_ok:
  assumes "fs_fault E (time w) (Rm workDir) = None"
  shows "restore_cleanup E workDir w =
           (Inr (), (tick w)\<lparr>nodes := filter (\<lambda>n. \<not> within workDir (fst n)) (nodes w)\<rparr>)"
  using assms
  by (simp add: restore_cleanup_def try_catch_def fs_rm_recursive_force_def tick_def)

lemma restore_cleanup_warns:
  assumes "fs_fault E (time w) (Rm workDir) = Some err"
  shows "restore_cleanup E workDir w =
           (Inr (), (tick w)\<lparr>nodes :=
              filter (\<lambda>n. \<not> (within workDir (fst n) \<and> fst n \<noteq> workDir \<and>
                              rm_partial E (time w) (fst n))) (nodes w),
              console := console w @
              [(Stderr, ''Warning: Failed to clean up temporary files: '' @ message err)]\<rparr>)"
  using assms
  by (simp add: restore_cleanup_def try_catch_def fs_rm_recursive_force_def
      console_warn_def tick_def)

text \<open>
  Claim C2, amended. On every exit path of \<open>restoreFromBackup\<close> that has entered
  the \<open>try\<close> (success, or failure of the decrypt, extract or provider stage) the
  recursive removal of the working directory is attempted before the function settles
  with the outcome of the stages. When the removal does not fail, nothing exists at the
  working directory or below it afterwards, the \<open>extracted\<close> directory included. When
  the removal fails, the error is only logged as a warning: the function still settles
  with the outcome of the stages, the working directory itself is still there with
  whatever the failed removal had not deleted below it, nothing is created and nothing
  outside the working directory is touched.
\<close>

theorem restoreFromBackup_cleanup:
  assumes dir: "ensureDirectory E workDir w = (Inr (), w1)"
    and stages: "restore_stages E encryptedBackupPath keys providerName providerOptions workDir w1
                   = (r, w2)"
  shows "(fs_fault E (time w2) (Rm workDir) = None \<longrightarrow>
            (\<exists>w'. restoreFromBackup E encryptedBackupPath keys providerName providerOptions
                    workDir w = (r, w') \<and>
                  (\<forall>p. within workDir p \<longrightarrow> \<not> exists_path w' p))) \<and>
         (\<forall>err. fs_fault E (time w2) (Rm workDir) = Some err \<longrightarrow>
            (\<exists>w'. restoreFromBackup E encryptedBackupPath keys providerName providerOptions
                    workDir w = (r, w') \<and>
                  console w' = console w2 @
                    [(Stderr, ''Warning: Failed to clean up temporary files: '' @ message err)] \<and>
                  execd w' = execd w2 \<and>
                  set (nodes w') \<subseteq> set (nodes w2) \<and>
                  (\<forall>q. \<not> within workDir q \<or> q = workDir \<longrightarrow>
                         is_file w' q = is_file w2 q \<and> is_dir w' q = is_dir w2 q)))"
proof (intro conjI impI allI)
  assume ok: "fs_fault E (time w2) (Rm workDir) = None"
  have "restoreFromBackup E encryptedBackupPath keys providerName providerOptions workDir w =
          (r, (tick w2)\<lparr>nodes := filter (\<lambda>n. \<not> within workDir (fst n)) (nodes w2)\<rparr>)"
    by (simp add: restoreFromBackup_def await_def dir try_finally_def stages
        restore_cleanup_ok [OF ok])
  moreover have "\<forall>p. within workDir p \<longrightarrow>
      \<not> exists_path ((tick w2)\<lparr>nodes := filter (\<lambda>n. \<not> within workDir (fst n)) (nodes w2)\<rparr>) p"
    by (auto simp: exists_path_def is_file_def is_dir_def tick_def)
  ultimately show "\<exists>w'. restoreFromBackup E encryptedBackupPath keys providerName providerOptions
                    workDir w = (r, w') \<and>
                  (\<forall>p. within workDir p \<longrightarrow> \<not> exists_path w' p)"
    by blast
next
  fix err
  assume bad: "fs_fault E (time w2) (Rm workDir) = Some err"
  define w' where "w' = (tick w2)\<lparr>nodes :=
              filter (\<lambda>n. \<not> (within workDir (fst n) \<and> fst n \<noteq> workDir \<and>
                              rm_partial E (time w2) (fst n))) (nodes w2),
              console := console w2 @
              [(Stderr, ''Warning: Failed to clean up temporary files: '' @ message err)]\<rparr>"
  have run: "restoreFromBackup E encryptedBackupPath keys providerName providerOptions workDir w =
               (r, w')"
    unfolding w'_def
    by (simp add: restoreFromBackup_def await_def dir try_finally_def stages
        restore_cleanup_warns [OF bad])
  have c: "console w' = console w2 @
             [(Stderr, ''Warning: Failed to clean up temporary files: '' @ message err)]"
    and x: "execd w' = execd w2"
    and n: "set (nodes w') \<subseteq> set (nodes w2)"
    by (auto simp: w'_def tick_def)
  have k: "\<forall>q. \<not> within workDir q \<or> q = workDir \<longrightarrow>
                         is_file w' q = is_file w2 q \<and> is_dir w' q = is_dir w2 q"
    by (auto simp: w'_def tick_def is_file_def is_dir_def)
  from run c x n k
  show "\<exists>w'. restoreFromBackup E encryptedBackupPath keys providerName providerOptions
                    workDir w = (r, w') \<and>
                  console w' = console w2 @
                    [(Stderr, ''Warning: Failed to clean up temporary files: '' @ message err)] \<and>
                  execd w' = execd w2 \<and>
                  set (nodes w') \<subseteq> set (nodes w2) \<and>
                  (\<forall>q. \<not> within workDir q \<or> q = workDir \<longrightarrow>
                         is_file w' q = is_file w2 q \<and> is_dir w' q = is_dir w2 q)"
    by blast
qed

lemma extractZipArchive_path:
  assumes "extractZipArchive E zipPath outputDir w = (Inr p, w')"
  shows "\<exists>name. p = path_join outputDir name"
  using assms
  by (auto simp: extractZipArchive_def await_Inr_iff try_rethrow_Inr_iff throw_def resolve_def
      split: option.splits)

lemma restore_stages_path:
  assumes "restore_stages E encryptedBackupPath keys providerName providerOptions workDir w
             = (Inr p, w')"
  shows "\<exists>name. p = path_join (path_join workDir ''extracted'') name"
  using assms
  by (auto simp: restore_stages_def Let_def await_Inr_iff resolve_def
      dest!: extractZipArchive_path)

text \<open>
  Claim C9, amended. On every successful run \<open>restoreFromBackup\<close> resolves with the
  path of the extracted dump file, which lies inside the working directory; whenever the
  removal of the working directory does not fail, no file exists at the returned path
  when the caller receives it.
\<close>

theorem restoreFromBackup_returns_removed_path:
  assumes dir: "ensureDirectory E workDir w = (Inr (), w1)"
    and stages: "restore_stages E encryptedBackupPath keys providerName providerOptions workDir w1
                   = (Inr dumpFilePath, w2)"
  shows "within workDir dumpFilePath \<and>
         (fs_fault E (time w2) (Rm workDir) = None \<longrightarrow>
            (\<exists>w'. restoreFromBackup E encryptedBackupPath keys providerName providerOptions
                    workDir w = (Inr dumpFilePath, w') \<and>
                  \<not> exists_path w' dumpFilePath))"
proof -
  from restore_stages_path [OF stages] have inside: "within workDir dumpFilePath"
    by (auto simp: within_join_join)
  have "fs_fault E (time w2) (Rm workDir) = None \<Longrightarrow>
      restoreFromBackup E encryptedBackupPath keys providerName providerOptions workDir w =
          (Inr dumpFilePath,
           (tick w2)\<lparr>nodes := filter (\<lambda>n. \<not> within workDir (fst n)) (nodes w2)\<rparr>)"
    by (simp add: restoreFromBackup_def await_def dir try_finally_def stages restore_cleanup_ok)
  moreover have "\<not> exists_path
      ((tick w2)\<lparr>nodes := filter (\<lambda>n. \<not> within workDir (fst n)) (nodes w2)\<rparr>) dumpFilePath"
    using inside by (auto simp: exists_path_def is_file_def is_dir_def tick_def)
  ultimately show ?thesis
    using inside by blast
qed


text \<open>
  Claim C2, as stated, fails: the decrypt stage fails, the removal of the working
  directory fails with \<open>EBUSY\<close>, and the function rejects with the working directory
  and the decrypted archive still on disk.
\<close>

theorem restoreFromBackup_workdir_left_counterexample:
  "fst (restoreFromBackup wrong_key_rm_denied ''orders.zip.encrypted'' sample_keys ''supabase'' []
          ''restore-temp'' encrypted_present) =
     Inl (Error ''Decryption failed: authentication tag mismatch'') \<and>
   is_dir (snd (restoreFromBackup wrong_key_rm_denied ''orders.zip.encrypted'' sample_keys
                  ''supabase'' [] ''restore-temp'' encrypted_present)) ''restore-temp'' \<and>
   is_file (snd (restoreFromBackup wrong_key_rm_denied ''orders.zip.encrypted'' sample_keys
                  ''supabase'' [] ''restore-temp'' encrypted_present))
     ''restore-temp/decrypted-backup.zip''"
  by code_simp

theorem restoreFromBackup_cleanup_witness:
  "\<not> exists_path (snd (restoreFromBackup sample_env ''orders.zip.encrypted'' sample_keys
                         ''supabase'' [] ''restore-temp'' encrypted_present)) ''restore-temp'' \<and>
   \<not> exists_path (snd (restoreFromBackup sample_env ''orders.zip.encrypted'' sample_keys
                         ''supabase'' [] ''restore-temp'' encrypted_present))
       ''restore-temp/extracted'' \<and>
   fst (restoreFromBackup sample_env ''orders.zip.encrypted'' sample_keys
          ''supabase'' [] ''restore-temp'' encrypted_present) =
     fst (restore_stages sample_env ''orders.zip.encrypted'' sample_keys ''supabase'' []
            ''restore-temp'' (snd (ensureDirectory sample_env ''restore-temp'' encrypted_present))) \<and>
   console (snd (restoreFromBackup rm_denied_midway ''orders.zip.encrypted'' sample_keys
                   ''supabase'' [] ''restore-temp'' encrypted_present)) =
     console (snd (restore_stages rm_denied_midway ''orders.zip.encrypted'' sample_keys
            ''supabase'' [] ''restore-temp''
            (snd (ensureDirectory rm_denied_midway ''restore-temp'' encrypted_present))))
     @ [(Stderr, ''Warning: Failed to clean up temporary files: '' @
           message (sys_error ''EBUSY'' ''resource busy or locked'' ''rm'' ''restore-temp''))] \<and>
   is_dir (snd (restoreFromBackup rm_denied_midway ''orders.zip.encrypted'' sample_keys
                   ''supabase'' [] ''restore-temp'' encrypted_present)) ''restore-temp''"
proof -
  let ?run = "\<lambda>E. restoreFromBackup E ''orders.zip.encrypted'' sample_keys ''supabase'' []
                 ''restore-temp'' encrypted_present"
  let ?w1 = "\<lambda>E. snd (ensureDirectory E ''restore-temp'' encrypted_present)"
  let ?st = "\<lambda>E. restore_stages E ''orders.zip.encrypted'' sample_keys ''supabase'' []
                ''restore-temp'' (?w1 E)"
  let ?err = "sys_error ''EBUSY'' ''resource busy or locked'' ''rm'' ''restore-temp''"
  have "fst (ensureDirectory sample_env ''restore-temp'' encrypted_present) = Inr ()"
    by code_simp
  then have d1: "ensureDirectory sample_env ''restore-temp'' encrypted_present =
      (Inr (), ?w1 sample_env)"
    by (metis prod.collapse)
  have "fst (ensureDirectory rm_denied_midway ''restore-temp'' encrypted_present) = Inr ()"
    by code_simp
  then have d2: "ensureDirectory rm_denied_midway ''restore-temp'' encrypted_present =
      (Inr (), ?w1 rm_denied_midway)"
    by (metis prod.collapse)
  have s1: "?st sample_env = (fst (?st sample_env), snd (?st sample_env))"
    by simp
  have s2: "?st rm_denied_midway = (fst (?st rm_denied_midway), snd (?st rm_denied_midway))"
    by simp
  have ok: "fs_fault sample_env t op = None" for t op
    by (simp add: sample_env_def)
  have bad: "fs_fault rm_denied_midway t (Rm ''restore-temp'') = Some ?err" for t
    by (simp add: rm_denied_midway_def rm_denied_def)
  have in1: "within ''restore-temp'' ''restore-temp''"
    and in2: "within ''restore-temp'' ''restore-temp/extracted''"
    by (simp_all add: within_def startsWith_def)
  have there: "is_dir (snd (?st rm_denied_midway)) ''restore-temp''"
    by code_simp
  from restoreFromBackup_cleanup [OF d1 s1, THEN conjunct1] ok in1 in2
  have a: "\<not> exists_path (snd (?run sample_env)) ''restore-temp'' \<and>
           \<not> exists_path (snd (?run sample_env)) ''restore-temp/extracted'' \<and>
           fst (?run sample_env) = fst (?st sample_env)"
    by (metis fst_conv snd_conv)
  from restoreFromBackup_cleanup [OF d2 s2, THEN conjunct2, THEN spec, of ?err] bad
  obtain w' where run: "?run rm_denied_midway = (fst (?st rm_denied_midway), w')"
    and c: "console w' = console (snd (?st rm_denied_midway)) @
              [(Stderr, ''Warning: Failed to clean up temporary files: '' @ message ?err)]"
    and k: "\<forall>q. \<not> within ''restore-temp'' q \<or> q = ''restore-temp'' \<longrightarrow>
               is_file w' q = is_file (snd (?st rm_denied_midway)) q \<and>
               is_dir w' q = is_dir (snd (?st rm_denied_midway)) q"
    by blast
  from k there have "is_dir w' ''restore-temp''"
    by blast
  with run c have b: "console (snd (?run rm_denied_midway)) =
       console (snd (?st rm_denied_midway)) @
         [(Stderr, ''Warning: Failed to clean up temporary files: '' @ message ?err)] \<and>
     is_dir (snd (?run rm_denied_midway)) ''restore-temp''"
    by simp
  from a b show ?thesis by blast
qed

text \<open>
  Claim C9, as stated, fails: when the removal of the working directory fails, the
  error is swallowed and the returned path names a file that still exists.
\<close>

theorem restoreFromBackup_returned_file_left_counterexample:
  "fst (restoreFromBackup rm_denied ''orders.zip.encrypted'' sample_keys ''supabase'' []
          ''restore-temp'' encrypted_present) =
     Inr ''restore-temp/extracted/dump.sql'' \<and>
   is_file (snd (restoreFromBackup rm_denied ''orders.zip.encrypted'' sample_keys
                  ''supabase'' [] ''restore-temp'' encrypted_present))
     ''restore-temp/extracted/dump.sql''"
  by code_simp

theorem restoreFromBackup_returns_removed_path_witness:
  "fst (restoreFromBackup sample_env ''orders.zip.encrypted'' sample_keys ''supabase'' []
          ''restore-temp'' encrypted_present) =
     Inr ''restore-temp/extracted/dump.sql'' \<and>
   within ''restore-temp'' ''restore-temp/extracted/dump.sql'' \<and>
   \<not> exists_path (snd (restoreFromBackup sample_env ''orders.zip.encrypted'' sample_keys
                         ''supabase'' [] ''restore-temp'' encrypted_present))
       ''restore-temp/extracted/dump.sql''"
proof -
  let ?w1 = "snd (ensureDirectory sample_env ''restore-temp'' encrypted_present)"
  let ?st = "restore_stages sample_env ''orders.zip.encrypted'' sample_keys ''supabase'' []
                ''restore-temp'' ?w1"
  have "fst (ensureDirectory sample_env ''restore-temp'' encrypted_present) = Inr ()"
    by code_simp
  then have d: "ensureDirectory sample_env ''restore-temp'' encrypted_present = (Inr (), ?w1)"
    by (metis prod.collapse)
  have "fst ?st = Inr ''restore-temp/extracted/dump.sql''"
    by code_simp
  then have s: "?st = (Inr ''restore-temp/extracted/dump.sql'', snd ?st)"
    by (metis prod.collapse)
  have ok: "fs_fault sample_env t op = None" for t op
    by (simp add: sample_env_def)
  from restoreFromBackup_returns_removed_path [OF d s] ok
  show ?thesis
    by (metis fst_conv snd_conv)
qed
section \<open>The backup command (claim C4)\<close>

lemma quietI:
  "(\<And>w r w'. m w = (r, w') \<Longrightarrow> nodes w' = nodes w \<and> prefix (console w) (console w')) \<Longrightarrow> quiet m"
  by (simp add: quiet_def)

lemma quietD:
  "quiet m \<Longrightarrow> m w = (r, w') \<Longrightarrow> nodes w' = nodes w \<and> prefix (console w) (console w')"
  by (simp add: quiet_def)

lemma quiet_resolve [simp]: "quiet (resolve x)"
  by (simp add: quiet_def resolve_def)

lemma quiet_throw [simp]: "quiet (throw e)"
  by (simp add: quiet_def throw_def)

lemma quiet_console_log [simp]: "quiet (console_log args)"
  by (auto simp: quiet_def console_log_def)

lemma quiet_await:
  assumes "quiet m" and "\<And>x. quiet (f x)"
  shows "quiet (await m f)"
proof (rule quietI)
  fix w r w'
  assume run: "await m f w = (r, w')"
  obtain r0 w0 where m: "m w = (r0, w0)" by (cases "m w")
  from quietD [OF assms(1) m] have 0: "nodes w0 = nodes w" "prefix (console w) (console w0)"
    by simp_all
  show "nodes w' = nodes w \<and> prefix (console w) (console w')"
  proof (cases r0)
    case (Inl e)
    with run m 0 show ?thesis by (simp add: await_def)
  next
    case (Inr x)
    with run m have "f x w0 = (r, w')" by (simp add: await_def)
    from quietD [OF assms(2) this] 0 show ?thesis
      by (auto intro: prefix_order.trans)
  qed
qed

lemma quiet_try_catch:
  assumes "quiet m" and "\<And>e. quiet (h e)"
  shows "quiet (try_catch m h)"
proof (rule quietI)
  fix w r w'
  assume run: "try_catch m h w = (r, w')"
  obtain r0 w0 where m: "m w = (r0, w0)" by (cases "m w")
  from quietD [OF assms(1) m] have 0: "nodes w0 = nodes w" "prefix (console w) (console w0)"
    by simp_all
  show "nodes w' = nodes w \<and> prefix (console w) (console w')"
  proof (cases r0)
    case (Inr x)
    with run m 0 show ?thesis by (simp add: try_catch_def)
  next
    case (Inl e)
    with run m have "h e w0 = (r, w')" by (simp add: try_catch_def)
    from quietD [OF assms(2) this] 0 show ?thesis
      by (auto intro: prefix_order.trans)
  qed
qed

lemma quiet_setenv_default [simp]: "quiet (setenv_default name v)"
  by (auto simp: quiet_def setenv_default_def)

lemma quiet_createTransporter [simp]: "quiet createTransporter"
  by (auto simp: quiet_def createTransporter_def Let_def)

lemma quiet_fs_access [simp]: "quiet (fs_access E p)"
  by (auto simp: quiet_def fs_access_def fs_call_def tick_def split: option.splits if_splits)

lemma quiet_transport_sendMail [simp]: "quiet (transport_sendMail E transport mailOptions)"
  by (auto simp: quiet_def transport_sendMail_def tick_def split: option.splits)

lemma quiet_generateBackupEmailContent [simp]:
  "quiet (generateBackupEmailContent E databaseName filename sizeText)"
  by (auto simp: quiet_def generateBackupEmailContent_def Let_def tick_def)

lemma quiet_sendBackupEmail [simp]: "quiet (sendBackupEmail E to subject text attachmentPath)"
  unfolding sendBackupEmail_def
proof (intro quiet_await quiet_createTransporter quiet_fs_access)
  fix transport :: transporter and u :: unit
  show "quiet (\<lambda>w. let mailOptions =
                 \<lparr>mail_from = getenv w ''SMTP_USER'', mail_to = to, mail_subject = subject,
                  mail_text = text, mail_attachment = attachmentPath\<rparr>
           in try_catch (transport_sendMail E transport mailOptions)
                (\<lambda>error. throw (Error (''Failed to send email: '' @ message error))) w)"
  proof (rule quietI)
    fix w r w'
    assume "(let mailOptions =
                 \<lparr>mail_from = getenv w ''SMTP_USER'', mail_to = to, mail_subject = subject,
                  mail_text = text, mail_attachment = attachmentPath\<rparr>
           in try_catch (transport_sendMail E transport mailOptions)
                (\<lambda>error. throw (Error (''Failed to send email: '' @ message error))) w) = (r, w')"
    then have "try_catch (transport_sendMail E transport
                 \<lparr>mail_from = getenv w ''SMTP_USER'', mail_to = to, mail_subject = subject,
                  mail_text = text, mail_attachment = attachmentPath\<rparr>)
                (\<lambda>error. throw (Error (''Failed to send email: '' @ message error))) w = (r, w')"
      by (simp add: Let_def)
    from quietD [OF quiet_try_catch this]
    show "nodes w' = nodes w \<and> prefix (console w) (console w')" by simp
  qed
qed

lemma quiet_backup_deliver: "quiet (backup_deliver E options b)"
  unfolding backup_deliver_def Let_def
  by (auto intro!: quiet_await simp: split_def)

lemma fs_access_success:
  assumes "fs_access E p w = (Inr u, w')"
  shows "exists_path w' p \<and> nodes w' = nodes w"
  using assms
  by (auto simp: fs_access_def fs_call_def tick_def exists_path_def is_file_def is_dir_def
      split: option.splits if_splits)

lemma encryptBackupFile_success:
  assumes "encryptBackupFile E inputFile outputFile ks w = (Inr u, w')"
  shows "exists_path w' outputFile"
  using assms
  by (auto simp: encryptBackupFile_def try_rethrow_Inr_iff await_Inr_iff dest: fs_access_success)

lemma getFileSize_success:
  assumes "getFileSize E p w = (Inr n, w')"
  shows "nodes w' = nodes w"
  using assms
  by (auto simp: getFileSize_def fs_stat_size_def fs_call_def tick_def
      split: option.splits if_splits)

lemma if_throw_Inr:
  "(if c then throw e else m) w = (Inr y, w') \<longleftrightarrow> \<not> c \<and> m w = (Inr y, w')"
  by (simp add: throw_def)

lemma await_proc_Inr_iff:
  "await_proc m f w = (Settles (Inr y), w') \<longleftrightarrow>
     (\<exists>x w0. m w = (Settles (Inr x), w0) \<and> f x w0 = (Settles (Inr y), w'))"
  by (auto simp: await_proc_def split: prod.splits fate.splits sum.splits)

lemma backup_encrypt_success:
  assumes "backup_encrypt E config ks (dumpPath, zipPath) w = (Inr b, w1)"
  shows "exists_path w1 (encryptedFile b) \<and>
         encryptedFile b = zipFile b @ ''.encrypted'' \<and>
         (\<exists>cs. console w1 = cs @
            [(Stdout, glyph_check @ '' Backup encrypted: '' @ basename (encryptedFile b)),
             (Stdout, glyph_check @ '' File size: '' @ formatBytes E (fileSize b) @ newline)])"
  using assms
  apply (simp only: backup_encrypt_def await_Inr_iff console_log_run resolve_def
      Let_def split_paired_Ex prod.case)
  apply (elim exE conjE)
  apply (drule encryptBackupFile_success)
  apply (drule getFileSize_success)
  apply (simp only: prod.inject sum.inject)
  apply (elim conjE)
  apply hypsubst
  apply (simp only: exists_path_def is_file_def is_dir_def)
  apply (simp (no_asm_simp))
  done

lemma backup_produce_success:
  assumes "backup_produce E options w = (Settles (Inr b), w1)"
  shows "exists_path w1 (encryptedFile b) \<and>
         encryptedFile b = zipFile b @ ''.encrypted'' \<and>
         (\<exists>cs. console w1 = cs @
            [(Stdout, glyph_check @ '' Backup encrypted: '' @ basename (encryptedFile b)),
             (Stdout, glyph_check @ '' File size: '' @ formatBytes E (fileSize b) @ newline)])"
proof -
  from assms obtain config ks files w0
    where enc: "backup_encrypt E config ks files w0 = (Inr b, w1)"
    unfolding backup_produce_def
    by (simp only: await_proc_Inr_iff settled_iff split_paired_Ex prod.case) blast
  obtain dumpPath zipPath where "files = (dumpPath, zipPath)"
    by (cases files)
  with enc have "backup_encrypt E config ks (dumpPath, zipPath) w0 = (Inr b, w1)"
    by simp
  then show ?thesis
    by (rule backup_encrypt_success)
qed

text \<open>
  Claim C4, amended. Whenever the backup command has produced the encrypted artifact
  (dump, archive and encryption succeeded) and the delivery by mail fails, the command
  prints the error of the delivery and exits with status 1, as it does for every other
  failure, and prints nothing else after the failure. The delivery leaves the file
  system untouched, so the encrypted artifact remains on disk. By then the console
  holds the line \<open>Backup encrypted:\<close> with the base name of the encrypted file.
\<close>

theorem backup_command_delivery_failure:
  assumes produce: "backup_produce E options w = (Settles (Inr b), w1)"
    and deliver: "backup_deliver E options b w1 = (Inl e, w2)"
  shows "backup_command E options w =
           (1, w2\<lparr>console := console w2 @
                 [(Stderr, newline @ glyph_cross @ '' Error: '' @ message e)]\<rparr>) \<and>
         nodes w2 = nodes w1 \<and>
         exists_path w2 (encryptedFile b) \<and>
         (Stdout, glyph_check @ '' Backup encrypted: '' @ basename (encryptedFile b))
           \<in> set (console w2)"
proof -
  have run: "backup_command E options w =
           (1, w2\<lparr>console := console w2 @
                 [(Stderr, newline @ glyph_cross @ '' Error: '' @ message e)]\<rparr>)"
    by (simp add: backup_command_def await_proc_def settled_def await_def produce deliver
          console_error_def)
  from quietD [OF quiet_backup_deliver deliver]
  have same: "nodes w2 = nodes w1" and grows: "prefix (console w1) (console w2)"
    by simp_all
  from backup_produce_success [OF produce]
  have there: "exists_path w1 (encryptedFile b)"
    and line: "(Stdout, glyph_check @ '' Backup encrypted: '' @ basename (encryptedFile b))
                 \<in> set (console w1)"
    by auto
  from there same have "exists_path w2 (encryptedFile b)"
    by (simp add: exists_path_def is_file_def is_dir_def)
  moreover from line grows
  have "(Stdout, glyph_check @ '' Backup encrypted: '' @ basename (encryptedFile b))
          \<in> set (console w2)"
    by (auto simp: prefix_def)
  ultimately show ?thesis
    using run same by blast
qed

text \<open>
  Claim C4, as stated, fails: with the working directory \<open>backups\<close> and a mail
  transport that refuses the connection, the command exits with status 1, the last line
  of the console is the error of the delivery, and no line of the console contains the
  path of the encrypted artifact, which is on disk.
\<close>

theorem backup_command_path_unreported_counterexample:
  "fst (backup_command mail_down send_and_clean empty_world) = 1 \<and>
   last (console (snd (backup_command mail_down send_and_clean empty_world))) =
     (Stderr, newline @ glyph_cross @ '' Error: Failed to send email: connect ECONNREFUSED'') \<and>
   list_all (\<lambda>line. \<not> str_includes (snd line)
               ''backups/supabase-backup-20240105-090307-orders_db.zip.encrypted'')
     (console (snd (backup_command mail_down send_and_clean empty_world))) \<and>
   is_file (snd (backup_command mail_down send_and_clean empty_world))
     ''backups/supabase-backup-20240105-090307-orders_db.zip.encrypted''"
proof -
  have "case backup_command mail_down send_and_clean empty_world of
          (status, w) \<Rightarrow>
            status = 1 \<and>
            last (console w) =
              (Stderr, newline @ glyph_cross @ '' Error: Failed to send email: connect ECONNREFUSED'') \<and>
            list_all (\<lambda>line. \<not> str_includes (snd line)
               ''backups/supabase-backup-20240105-090307-orders_db.zip.encrypted'') (console w) \<and>
            is_file w ''backups/supabase-backup-20240105-090307-orders_db.zip.encrypted''"
    by code_simp
  then show ?thesis
    by (simp only: case_prod_unfold)
qed

theorem backup_command_delivery_failure_witness:
  "fst (backup_command mail_down send_and_clean empty_world) = 1 \<and>
   exists_path (snd (backup_command mail_down send_and_clean empty_world))
     ''backups/supabase-backup-20240105-090307-orders_db.zip.encrypted'' \<and>
   (Stdout, glyph_check @
      '' Backup encrypted: supabase-backup-20240105-090307-orders_db.zip.encrypted'')
     \<in> set (console (snd (backup_command mail_down send_and_clean empty_world)))"
proof -
  define b0 where "b0 =
     \<lparr>merged = sample_config,
      dumpFile = ''backups/supabase-backup-20240105-090307-orders_db.sql'',
      zipFile = ''backups/supabase-backup-20240105-090307-orders_db.zip'',
      encryptedFile = ''backups/supabase-backup-20240105-090307-orders_db.zip.encrypted'',
      fileSize = 2048\<rparr>"
  let ?w1 = "snd (backup_produce mail_down send_and_clean empty_world)"
  let ?w2 = "snd (backup_deliver mail_down send_and_clean b0 ?w1)"
  have "fst (backup_produce mail_down send_and_clean empty_world) = Settles (Inr b0)"
    unfolding b0_def by code_simp
  then have p: "backup_produce mail_down send_and_clean empty_world = (Settles (Inr b0), ?w1)"
    by (metis prod.collapse)
  have "fst (backup_deliver mail_down send_and_clean b0 ?w1) =
          Inl (Error ''Failed to send email: connect ECONNREFUSED'')"
    unfolding b0_def by code_simp
  then have d: "backup_deliver mail_down send_and_clean b0 ?w1 =
          (Inl (Error ''Failed to send email: connect ECONNREFUSED''), ?w2)"
    by (metis prod.collapse)
  have e: "encryptedFile b0 = ''backups/supabase-backup-20240105-090307-orders_db.zip.encrypted''"
    by (simp add: b0_def)
  have bn: "basename ''backups/supabase-backup-20240105-090307-orders_db.zip.encrypted'' =
      ''supabase-backup-20240105-090307-orders_db.zip.encrypted''"
    by (simp add: basename_def)
  note t = backup_command_delivery_failure [OF p d, unfolded e bn]
  from t have 1: "fst (backup_command mail_down send_and_clean empty_world) = 1"
    by simp
  from t have 2: "exists_path (snd (backup_command mail_down send_and_clean empty_world))
     ''backups/supabase-backup-20240105-090307-orders_db.zip.encrypted''"
    by (auto simp: exists_path_def is_file_def is_dir_def)
  from t have 3: "(Stdout, glyph_check @
      '' Backup encrypted: supabase-backup-20240105-090307-orders_db.zip.encrypted'')
     \<in> set (console (snd (backup_command mail_down send_and_clean empty_world)))"
    by simp
  from 1 2 3 show ?thesis by blast
qed

end
